theory Spec2Isabelle
  imports Complex_Main
begin

section \<open>The typed nodes of pyccel/ast/builtins.py\<close>

text \<open>
  Every typed node carries a type signature: element kind (dtype), precision, rank, shape,
  memory order and class type. The kinds are the datatype singletons that builtins.py
  imports from the datatypes module; \<open>NativeInhomogeneousTuple\<close> records the kind of each
  element of the tuple it describes. \<open>BindCPointer\<close> is the C pointer kind that bind_c.py
  declares.
\<close>

datatype dtype =
    NativeBool
  | NativeInteger
  | NativeFloat
  | NativeComplex
  | NativeGeneric
  | NativeHomogeneousTuple
  | NativeHomogeneousList
  | NativeInhomogeneousTuple "dtype list"
  | BindCPointer

text \<open>
  The exceptions the constructors raise. \<open>TypeError\<close>, \<open>ValueError\<close> and
  \<open>PyccelError\<close> carry the message of the raise statement (the rendering of
  \<open>type(x)\<close> in "Unknown type of ..." is left out). \<open>AttributeError\<close>,
  \<open>IndexError\<close>, \<open>NoneTypeError\<close> and \<open>OverflowError\<close> are raised by the interpreter: reading an
  attribute that an object does not have, indexing an empty tuple, and subscripting
  or concatenating \<open>None\<close> (a TypeError of the interpreter, kept apart from the
  TypeErrors the source raises itself), and converting to a float an integer that is too
  large for one.
\<close>

datatype error =
    TypeError string
  | ValueError string
  | PyccelError string
  | AttributeError
  | IndexError
  | NoneTypeError
  | OverflowError

text \<open>
  A signature is fixed when the node is built. The rank is a natural number (ranks are
  never negative), the precision an integer (\<open>-1\<close> is the default precision), the shape
  is \<open>None\<close> or a tuple whose entries are size expressions (nodes) or \<open>None\<close> for an
  unknown dimension, the order is \<open>None\<close> or the string \<open>'C'\<close>. The class type is
  \<open>None\<close> where the constructor leaves the slot unset.
\<close>

datatype 'n type_signature = Signature
  (sig_dtype: dtype)
  (sig_precision: int)
  (sig_rank: nat)
  (sig_shape: "'n option list option")
  (sig_order: "string option")
  (sig_class_type: "dtype option")

text \<open>The \<open>_length\<close> slot of a zip: \<open>None\<close>, a Python integer, or a size expression.\<close>

datatype 'n zip_length = ZipNone | ZipInt int | ZipExpr 'n

text \<open>
  The nodes. The literal classes, \<open>Nil\<close> and the base class \<open>TypedAstNode\<close> are
  defined in modules that builtins.py imports. A literal holds its Python value and its
  precision; the two parts of a complex literal are float values. The payload of a float
  literal is the real number that its (finite) double denotes. The literals are the numeric ones, which the constructors
  below take as operands; the string literal is not among them. \<open>TypedAstNode name sig is_optional is_homogeneous\<close> stands
  for an already built typed object of a class defined elsewhere (a variable, an operator
  application, an array expression): its signature is given, and the two last fields are
  its \<open>is_optional\<close> and \<open>is_homogeneous\<close> attributes, \<open>None\<close> when the object has no
  such attribute.

  The nodes built in builtins.py keep their constructor arguments and the slots that
  \<open>__init__\<close> computes. For \<open>PythonTuple\<close> these are the \<open>is_homogeneous\<close> flag and
  the signature, for \<open>PythonList\<close> the signature; both are \<open>None\<close> for a node built
  in the syntactic stage, where \<open>__init__\<close> returns before setting them.
\<close>

datatype node =
    LiteralTrue int
  | LiteralFalse int
  | LiteralInteger int int
  | LiteralFloat real int
  | LiteralComplex real real int
  | Nil
  | TypedAstNode string "node type_signature" "bool option" "bool option"
  | PythonBool node
  | PythonInt node
  | PythonFloat node
  | PythonComplex node node
  | PythonLen node
  | PythonAbs node "node type_signature"
  | PythonTuple "node list" "(bool \<times> node type_signature) option"
  | PythonList "node list" "node type_signature option"
  | PythonRange node node node
  | PythonZip "node list" "node zip_length"
  | PythonMax node dtype int dtype
  | PythonMin node dtype int dtype

text \<open>
  What a factory hands back. \<open>__new__\<close> may return an object that existed before the call
  (\<open>Existing\<close>: the operand itself, or an entry of its shape), a node allocated by the call
  (\<open>Fresh\<close>), Python's \<open>None\<close>, or an application of an operator class of the operators
  module to such values.
\<close>

datatype built =
    Existing node
  | Fresh node
  | PyNone
  | PyccelAdd built built
  | PyccelMul built built
  | PyccelAnd built built
  | PyccelIsNot built built

subsection \<open>Attributes\<close>

text \<open>
  Modelled from the spec: the literal classes are not part of builtins.py; a literal is a
  zero-rank scalar of the kind of its class, with shape none and no order.
\<close>

definition scalar_signature :: "dtype \<Rightarrow> int \<Rightarrow> node type_signature" where
  "scalar_signature d p = Signature d p 0 None None (Some d)"

text \<open>
  The signature a node reports, \<open>None\<close> when reading \<open>dtype\<close>, \<open>rank\<close>, \<open>shape\<close>, ...
  raises AttributeError. The cast, length and complex nodes have class attributes
  (\<open>_dtype\<close>, \<open>_precision = -1\<close>, \<open>_rank = 0\<close>, \<open>_shape = None\<close>, \<open>_order = None\<close>);
  \<open>PythonMax\<close> and \<open>PythonMin\<close> have the class attributes for rank, shape and order
  and the slots \<open>_dtype\<close>, \<open>_precision\<close>, \<open>_class_type\<close>. \<open>PythonRange\<close> derives
  from \<open>PyccelAstNode\<close>, not from \<open>TypedAstNode\<close>, and sets only start, stop and step;
  \<open>PythonZip\<close> sets only \<open>_length\<close>.
\<close>

fun signature :: "node \<Rightarrow> node type_signature option" where
  "signature (LiteralTrue p) = Some (scalar_signature NativeBool p)"
| "signature (LiteralFalse p) = Some (scalar_signature NativeBool p)"
| "signature (LiteralInteger v p) = Some (scalar_signature NativeInteger p)"
| "signature (LiteralFloat v p) = Some (scalar_signature NativeFloat p)"
| "signature (LiteralComplex re im p) = Some (scalar_signature NativeComplex p)"
| "signature Nil = None"
| "signature (TypedAstNode nm s opt hom) = Some s"
| "signature (PythonBool a) = Some (scalar_signature NativeBool (-1))"
| "signature (PythonInt a) = Some (scalar_signature NativeInteger (-1))"
| "signature (PythonFloat a) = Some (scalar_signature NativeFloat (-1))"
| "signature (PythonComplex a b) = Some (scalar_signature NativeComplex (-1))"
| "signature (PythonLen a) = Some (scalar_signature NativeInteger (-1))"
| "signature (PythonAbs a s) = Some s"
| "signature (PythonTuple args attrs) = map_option snd attrs"
| "signature (PythonList args attrs) = attrs"
| "signature (PythonRange start stop step) = None"
| "signature (PythonZip args len) = None"
| "signature (PythonMax x d p c) = Some (Signature d p 0 None None (Some c))"
| "signature (PythonMin x d p c) = Some (Signature d p 0 None None (Some c))"

text \<open>\<open>isinstance(arg, Literal)\<close>.\<close>

fun isinstance_Literal :: "node \<Rightarrow> bool" where
  "isinstance_Literal (LiteralTrue p) = True"
| "isinstance_Literal (LiteralFalse p) = True"
| "isinstance_Literal (LiteralInteger v p) = True"
| "isinstance_Literal (LiteralFloat v p) = True"
| "isinstance_Literal (LiteralComplex re im p) = True"
| "isinstance_Literal n = False"




















text \<open>\<open>getattr(arg, 'is_optional', None)\<close> and \<open>getattr(arg, 'is_homogeneous', ...)\<close>.\<close>

fun is_optional :: "node \<Rightarrow> bool option" where
  "is_optional (TypedAstNode nm s opt hom) = opt"
| "is_optional n = None"

fun is_homogeneous :: "node \<Rightarrow> bool option" where
  "is_homogeneous (TypedAstNode nm s opt hom) = hom"
| "is_homogeneous (PythonTuple args attrs) = map_option fst attrs"
| "is_homogeneous (PythonList args attrs) = Some True"
| "is_homogeneous n = None"

subsection \<open>The cast factories\<close>

text \<open>The class attribute \<open>_precision\<close> of the three casts and of \<open>PythonComplex\<close>.\<close>

definition cast_precision :: int where
  "cast_precision = -1"

text \<open>
  \<open>PythonBool.__new__\<close>: an optional argument is tested for presence first; the
  \<open>PythonBool\<close> node is built in both branches.
\<close>

definition PythonBool_new :: "node \<Rightarrow> built" where
  "PythonBool_new arg =
     (if is_optional arg = Some True
      then PyccelAnd (PyccelIsNot (Existing arg) (Fresh Nil)) (Fresh (PythonBool arg))
      else Fresh (PythonBool arg))"

text \<open>
  \<open>PythonFloat.__new__\<close>: a float literal of the target precision is returned as it is,
  an integer or float literal is folded into a new float literal, anything else is
  wrapped.
\<close>

fun PythonFloat_new :: "node \<Rightarrow> built" where
  "PythonFloat_new (LiteralFloat v p) =
     (if p = cast_precision then Existing (LiteralFloat v p)
      else Fresh (LiteralFloat v cast_precision))"
| "PythonFloat_new (LiteralInteger v p) = Fresh (LiteralFloat (of_int v) cast_precision)"
| "PythonFloat_new arg = Fresh (PythonFloat arg)"

text \<open>\<open>PythonInt.__new__\<close>: an integer literal is rebuilt at the target precision.\<close>

fun PythonInt_new :: "node \<Rightarrow> built" where
  "PythonInt_new (LiteralInteger v p) = Fresh (LiteralInteger v cast_precision)"
| "PythonInt_new arg = Fresh (PythonInt arg)"

subsection \<open>The complex factory\<close>








subsection \<open>Length and absolute value\<close>

text \<open>
  \<open>arg.shape[0]\<close>: reading the shape of an object without signature raises
  AttributeError, subscripting \<open>None\<close> a TypeError of the interpreter, indexing the
  empty tuple IndexError. The entry is a size expression or \<open>None\<close>.
\<close>

definition first_dimension :: "node \<Rightarrow> error + node option" where
  "first_dimension arg =
     (case signature arg of
        None \<Rightarrow> Inl AttributeError
      | Some s \<Rightarrow>
         (case sig_shape s of
            None \<Rightarrow> Inl NoneTypeError
          | Some [] \<Rightarrow> Inl IndexError
          | Some (d # ds) \<Rightarrow> Inr d))"

text \<open>An entry of a shape, handed back as it is.\<close>

definition shape_entry :: "node option \<Rightarrow> built" where
  "shape_entry d = (case d of None \<Rightarrow> PyNone | Some n \<Rightarrow> Existing n)"

text \<open>
  \<open>PythonLen.__new__\<close>: \<open>not getattr(arg, 'is_homogeneous', False)\<close> holds for an
  object whose flag is false and for an object that has no such attribute.
\<close>

definition PythonLen_new :: "node \<Rightarrow> error + built" where
  "PythonLen_new arg =
     (if is_homogeneous arg \<noteq> Some True
      then map_sum id shape_entry (first_dimension arg)
      else Inr (Fresh (PythonLen arg)))"

text \<open>\<open>PythonAbs.__init__\<close>: the signature is copied from the argument, but for the kind.\<close>

definition PythonAbs_init :: "node \<Rightarrow> error + node" where
  "PythonAbs_init x =
     (case signature x of
        None \<Rightarrow> Inl AttributeError
      | Some s \<Rightarrow>
         (case sig_class_type s of
            None \<Rightarrow> Inl AttributeError
          | Some c \<Rightarrow>
             Inr (PythonAbs x
                   (Signature (if sig_dtype s = NativeInteger then NativeInteger else NativeFloat)
                      (-1) (sig_rank s) (sig_shape s) (sig_order s) (Some c)))))"

subsection \<open>Tuples and lists\<close>

text \<open>
  The stage of the compiler is a process-wide marker compared with a string; it is a
  parameter here. \<open>get_final_precision\<close> is imported from the internals module and is
  the parameter \<open>final_precision\<close>. \<open>declared_precision\<close> is the instance used to
  run the model on concrete inputs: it reads the precision the node declares.
\<close>

definition declared_precision :: "node \<Rightarrow> int" where
  "declared_precision a = (case signature a of None \<Rightarrow> 0 | Some s \<Rightarrow> sig_precision s)"

text \<open>
  The generator inside \<open>all(...)\<close>, run over \<open>args[1:]\<close>: it stops with \<open>False\<close> at
  the first element that differs from \<open>arg0\<close>, and reading the kind of an element without
  signature raises.
\<close>

fun all_like_arg0 :: "(node \<Rightarrow> int) \<Rightarrow> node \<Rightarrow> node type_signature \<Rightarrow> node list \<Rightarrow> error + bool" where
  "all_like_arg0 final_precision arg0 s0 [] = Inr True"
| "all_like_arg0 final_precision arg0 s0 (a # as) =
     (case signature a of
        None \<Rightarrow> Inl AttributeError
      | Some s \<Rightarrow>
         if sig_dtype s \<noteq> NativeGeneric \<and> sig_dtype s0 = sig_dtype s
            \<and> final_precision arg0 = final_precision a
            \<and> sig_rank s0 = sig_rank s \<and> sig_order s0 = sig_order s
         then all_like_arg0 final_precision arg0 s0 as
         else Inr False)"

text \<open>The test of the generator on one element, as a predicate.\<close>

definition like :: "(node \<Rightarrow> int) \<Rightarrow> node \<Rightarrow> node type_signature \<Rightarrow> node \<Rightarrow> bool" where
  "like final_precision arg0 s0 a =
     (\<exists>s. signature a = Some s \<and> sig_dtype s \<noteq> NativeGeneric
        \<and> sig_dtype s0 = sig_dtype s \<and> final_precision arg0 = final_precision a
        \<and> sig_rank s0 = sig_rank s \<and> sig_order s0 = sig_order s)"

definition compute_is_homogeneous :: "(node \<Rightarrow> int) \<Rightarrow> node \<Rightarrow> node type_signature \<Rightarrow> node list \<Rightarrow> error + bool" where
  "compute_is_homogeneous final_precision arg0 s0 rest =
     (if sig_dtype s0 \<noteq> NativeGeneric then all_like_arg0 final_precision arg0 s0 rest
      else Inr False)"

text \<open>\<open>None if self._rank < 2 else 'C'\<close>.\<close>

definition order_of_rank :: "nat \<Rightarrow> string option" where
  "order_of_rank r = (if r < 2 then None else Some ''C'')"

text \<open>\<open>LiteralInteger(len(args))\<close>, a literal of the default precision.\<close>

definition length_literal :: "node list \<Rightarrow> node" where
  "length_literal args = LiteralInteger (int (length args)) (-1)"

text \<open>
  The homogeneous branch, shared by the two constructors but for the class type:
  \<open>inner_shape[0]\<close> is \<open>()\<close> for a scalar first element and its shape otherwise, and
  adding \<open>None\<close> to a tuple raises.
\<close>

definition homogeneous_signature :: "node list \<Rightarrow> node type_signature \<Rightarrow> dtype \<Rightarrow> error + node type_signature" where
  "homogeneous_signature args s0 class_type =
     (case (if sig_rank s0 = 0 then Some [] else sig_shape s0) of
        None \<Rightarrow> Inl NoneTypeError
      | Some inner_shape0 \<Rightarrow>
         (let shape = Some (length_literal args) # inner_shape0;
              rank = length shape
          in Inr (Signature (sig_dtype s0) (sig_precision s0) rank (Some shape)
                    (order_of_rank rank) (Some class_type))))"

text \<open>\<open>max(a.rank for a in args)\<close> on a non-empty sequence.\<close>

definition max_rank_of :: "node type_signature \<Rightarrow> node type_signature list \<Rightarrow> nat" where
  "max_rank_of s0 sigs = fold max (map sig_rank sigs) (sig_rank s0)"

text \<open>The inhomogeneous branch of the tuple.\<close>

definition inhomogeneous_signature :: "node list \<Rightarrow> node type_signature \<Rightarrow> node type_signature list \<Rightarrow> error + node type_signature" where
  "inhomogeneous_signature args s0 sigs =
     (let max_rank = max_rank_of s0 sigs;
          rank = max_rank + 1;
          dt = NativeInhomogeneousTuple (map sig_dtype (s0 # sigs))
      in if rank = 1 then
           Inr (Signature dt 0 rank (Some [Some (length_literal args)]) (order_of_rank rank) (Some dt))
         else if \<exists>s \<in> set (s0 # sigs). sig_rank s \<noteq> max_rank then
           Inr (Signature dt 0 rank
                  (Some (Some (length_literal args) # replicate (rank - 1) None))
                  (order_of_rank rank) (Some dt))
         else
           (case sig_shape s0 of
              None \<Rightarrow> Inl NoneTypeError
            | Some shape0 \<Rightarrow>
               Inr (Signature dt 0 rank (Some (Some (length_literal args) # shape0))
                      (order_of_rank rank) (Some dt))))"

text \<open>The signatures of all elements, \<open>None\<close> when one of them has none.\<close>

definition signatures :: "node list \<Rightarrow> node type_signature list option" where
  "signatures args = those (map signature args)"

text \<open>
  \<open>PythonTuple.__init__\<close>. The flag \<open>_inconsistent_shape\<close>, which compares shape
  objects with Python's equality, is not part of the model; computing it reads the shape
  of the elements, which raises for an element without signature exactly when the later
  \<open>max(a.rank for a in args)\<close> does.
\<close>

definition PythonTuple_init :: "(node \<Rightarrow> int) \<Rightarrow> string \<Rightarrow> node list \<Rightarrow> error + node" where
  "PythonTuple_init final_precision stage args =
     (if stage = ''syntactic'' then Inr (PythonTuple args None)
      else
        (case args of
           [] \<Rightarrow> Inr (PythonTuple args (Some (False, Signature NativeGeneric 0 0 None None None)))
         | arg0 # rest \<Rightarrow>
            (case signature arg0 of
               None \<Rightarrow> Inl AttributeError
             | Some s0 \<Rightarrow>
                (case compute_is_homogeneous final_precision arg0 s0 rest of
                   Inl e \<Rightarrow> Inl e
                 | Inr h \<Rightarrow>
                    (case signatures rest of
                       None \<Rightarrow> Inl AttributeError
                     | Some sigs \<Rightarrow>
                        (case (if h then homogeneous_signature args s0 NativeHomogeneousTuple
                               else inhomogeneous_signature args s0 sigs) of
                           Inl e \<Rightarrow> Inl e
                         | Inr s \<Rightarrow> Inr (PythonTuple args (Some (h, s)))))))))"

text \<open>\<open>PythonList.__init__\<close>; the class type is the class attribute.\<close>

definition PythonList_init :: "(node \<Rightarrow> int) \<Rightarrow> string \<Rightarrow> node list \<Rightarrow> error + node" where
  "PythonList_init final_precision stage args =
     (if stage = ''syntactic'' then Inr (PythonList args None)
      else
        (case args of
           [] \<Rightarrow> Inr (PythonList args
                      (Some (Signature NativeGeneric 0 0 None None (Some NativeHomogeneousList))))
         | arg0 # rest \<Rightarrow>
            (case signature arg0 of
               None \<Rightarrow> Inl AttributeError
             | Some s0 \<Rightarrow>
                (case compute_is_homogeneous final_precision arg0 s0 rest of
                   Inl e \<Rightarrow> Inl e
                 | Inr h \<Rightarrow>
                    if h then
                      (case homogeneous_signature args s0 NativeHomogeneousList of
                         Inl e \<Rightarrow> Inl e
                       | Inr s \<Rightarrow> Inr (PythonList args (Some s)))
                    else Inl (TypeError ''Can't create an inhomogeneous list'')))))"

text \<open>
  The property the homogeneity law speaks of: two elements have the same type when they
  agree on kind, final precision, rank and order; a sequence is pairwise identical when
  any two of its elements do. An element is of generic kind when its kind is
  \<open>NativeGeneric\<close>, as the kind of an empty tuple is.
\<close>

definition same_type :: "(node \<Rightarrow> int) \<Rightarrow> node \<Rightarrow> node \<Rightarrow> bool" where
  "same_type final_precision a b =
     (map_option sig_dtype (signature a) = map_option sig_dtype (signature b)
      \<and> final_precision a = final_precision b
      \<and> map_option sig_rank (signature a) = map_option sig_rank (signature b)
      \<and> map_option sig_order (signature a) = map_option sig_order (signature b))"

definition pairwise_identical :: "(node \<Rightarrow> int) \<Rightarrow> node list \<Rightarrow> bool" where
  "pairwise_identical final_precision args =
     (\<forall>a \<in> set args. \<forall>b \<in> set args. same_type final_precision a b)"

definition generic_kind :: "node \<Rightarrow> bool" where
  "generic_kind a = (map_option sig_dtype (signature a) = Some NativeGeneric)"

text \<open>
  An element is of shape \<open>S\<close> when it is a scalar and \<open>S\<close> is empty, or it has a
  positive rank and its shape is the tuple \<open>S\<close>.
\<close>

definition of_shape :: "node option list \<Rightarrow> node \<Rightarrow> bool" where
  "of_shape S a =
     (case signature a of
        None \<Rightarrow> False
      | Some s \<Rightarrow> if sig_rank s = 0 then S = [] else sig_shape s = Some S)"

subsection \<open>Sample operands\<close>

text \<open>
  Operands used to run the constructors on concrete inputs: an integer, a float and a
  boolean scalar variable, an optional float argument, a symbolic size, a float
  vector of that size, float vectors of literal sizes, and the empty tuple as the tuple constructor
  builds it outside the syntactic stage.
\<close>

definition int_value :: node where
  "int_value = TypedAstNode ''i'' (scalar_signature NativeInteger (-1)) (Some False) None"

definition float_value :: node where
  "float_value = TypedAstNode ''x'' (scalar_signature NativeFloat (-1)) (Some False) None"

definition bool_value :: node where
  "bool_value = TypedAstNode ''b'' (scalar_signature NativeBool (-1)) (Some False) None"

definition optional_value :: node where
  "optional_value = TypedAstNode ''y'' (scalar_signature NativeFloat (-1)) (Some True) None"

definition size_n :: node where
  "size_n = TypedAstNode ''n'' (scalar_signature NativeInteger (-1)) None None"

definition float_vector :: node where
  "float_vector =
     TypedAstNode ''v'' (Signature NativeFloat (-1) 1 (Some [Some size_n]) None (Some NativeFloat))
       (Some False) None"

definition vector_of_length :: "int \<Rightarrow> node" where
  "vector_of_length k =
     TypedAstNode ''w''
       (Signature NativeFloat (-1) 1 (Some [Some (LiteralInteger k (-1))]) None (Some NativeFloat))
       (Some False) None"

definition empty_tuple :: node where
  "empty_tuple = PythonTuple [] (Some (False, Signature NativeGeneric 0 0 None None None))"

subsection \<open>Range and zip\<close>

text \<open>\<open>PythonRange.__init__\<close>: one, two or three arguments.\<close>

definition PythonRange_init :: "node list \<Rightarrow> error + node" where
  "PythonRange_init args =
     (case args of
        [stop] \<Rightarrow> Inr (PythonRange (LiteralInteger 0 (-1)) stop (LiteralInteger 1 (-1)))
      | [start, stop] \<Rightarrow> Inr (PythonRange start stop (LiteralInteger 1 (-1)))
      | [start, stop, step] \<Rightarrow> Inr (PythonRange start stop step)
      | _ \<Rightarrow> Inl (ValueError ''Range has at most 3 arguments''))"

text \<open>
  The list comprehension of \<open>PythonZip.__init__\<close>: the values of the first dimensions
  that are integer literals, in the order of the sources.
\<close>

fun known_lengths :: "node list \<Rightarrow> error + int list" where
  "known_lengths [] = Inr []"
| "known_lengths (a # as) =
     (case first_dimension a of
        Inl e \<Rightarrow> Inl e
      | Inr d \<Rightarrow>
         (case known_lengths as of
            Inl e \<Rightarrow> Inl e
          | Inr ls \<Rightarrow> Inr (case d of Some (LiteralInteger v p) \<Rightarrow> v # ls | _ \<Rightarrow> ls)))"

text \<open>The values of the integer literals among a list of first dimensions.\<close>

fun literal_values :: "node option list \<Rightarrow> int list" where
  "literal_values [] = []"
| "literal_values (Some (LiteralInteger v p) # ds) = v # literal_values ds"
| "literal_values (d # ds) = literal_values ds"

definition zip_fallback_length :: "node option \<Rightarrow> node zip_length" where
  "zip_fallback_length d = (case d of None \<Rightarrow> ZipNone | Some n \<Rightarrow> ZipExpr n)"

definition PythonZip_init :: "string \<Rightarrow> node list \<Rightarrow> error + node" where
  "PythonZip_init stage args =
     (if length args < 2 then Inl (ValueError ''args must be of length > 2'')
      else if stage = ''syntactic'' then Inr (PythonZip args ZipNone)
      else
        (case known_lengths args of
           Inl e \<Rightarrow> Inl e
         | Inr [] \<Rightarrow>
            (case args of
               [] \<Rightarrow> Inl IndexError
             | arg0 # rest \<Rightarrow>
                (case first_dimension arg0 of
                   Inl e \<Rightarrow> Inl e
                 | Inr d \<Rightarrow> Inr (PythonZip args (zip_fallback_length d))))
         | Inr (l # ls) \<Rightarrow> Inr (PythonZip args (ZipInt (fold min ls l)))))"

subsection \<open>Maximum and minimum\<close>

text \<open>
  What the caller passes to \<open>max\<close> and \<open>min\<close>: nodes, or a Python list or tuple of
  nodes.
\<close>

datatype argument = Node node | Sequence "node list"

fun as_nodes :: "argument list \<Rightarrow> node list option" where
  "as_nodes [] = Some []"
| "as_nodes (Node n # xs) = map_option ((#) n) (as_nodes xs)"
| "as_nodes (Sequence ns # xs) = None"

text \<open>
  The first lines of both constructors: a single argument is unwrapped, a Python sequence
  is packed into a tuple node, an aggregate node is taken as it is, and anything else is
  refused. A sequence among several arguments reaches the tuple constructor as an element
  without attributes.
\<close>

definition aggregate_of :: "(node \<Rightarrow> int) \<Rightarrow> string \<Rightarrow> argument list \<Rightarrow> error + node" where
  "aggregate_of final_precision stage x =
     (case x of
        [Sequence ns] \<Rightarrow> PythonTuple_init final_precision stage ns
      | [Node (PythonTuple args attrs)] \<Rightarrow> Inr (PythonTuple args attrs)
      | [Node (PythonList args attrs)] \<Rightarrow> Inr (PythonList args attrs)
      | [Node n] \<Rightarrow> Inl (TypeError ''Unknown type of'')
      | _ \<Rightarrow>
         (case as_nodes x of
            None \<Rightarrow> Inl AttributeError
          | Some ns \<Rightarrow> PythonTuple_init final_precision stage ns))"

text \<open>The elements an aggregate iterates over.\<close>

fun elements :: "node \<Rightarrow> node list" where
  "elements (PythonTuple args attrs) = args"
| "elements (PythonList args attrs) = args"
| "elements n = []"

text \<open>\<open>', '.join(...)\<close>.\<close>

fun join_comma :: "string list \<Rightarrow> string" where
  "join_comma [] = ''''"
| "join_comma [s] = s"
| "join_comma (s # t # ss) = s @ '', '' @ join_comma (t # ss)"

text \<open>\<open>str\<close> of a Python integer.\<close>

fun str_nat :: "nat \<Rightarrow> string" where
  "str_nat n =
     (if n < 10 then [''0123456789'' ! n]
      else str_nat (n div 10) @ [''0123456789'' ! (n mod 10)])"

declare str_nat.simps [simp del]

definition str_int :: "int \<Rightarrow> string" where
  "str_int i = (if i < 0 then ''-'' @ str_nat (nat (- i)) else str_nat (nat i))"

text \<open>
  The pieces of the two messages. In \<open>PythonMax\<close> the string
  \<open>'{xi.dtype}({xi.precision})'\<close> is a plain string, in \<open>PythonMin\<close> it is an f-string
  that renders the kind and the precision of the element. The rendering of a kind,
  \<open>str(xi.dtype)\<close>, belongs to the datatypes module and is the parameter \<open>str_dtype\<close>.
\<close>

definition max_types :: "node \<Rightarrow> string" where
  "max_types x = join_comma (map (\<lambda>xi. ''{xi.dtype}({xi.precision})'') (elements x))"

definition min_types :: "(dtype \<Rightarrow> string) \<Rightarrow> node \<Rightarrow> string option" where
  "min_types str_dtype x =
     map_option
       (\<lambda>sigs. join_comma
          (map (\<lambda>s. str_dtype (sig_dtype s) @ ''('' @ str_int (sig_precision s) @ '')'') sigs))
       (signatures (elements x))"

definition max_message :: "string \<Rightarrow> string" where
  "max_message types =
     ''Cannot determine final dtype of 'max' call with arguments of different ''
     @ ''types ('' @ types @ ''). Please cast arguments to the desired dtype''"

definition min_message :: "string \<Rightarrow> string" where
  "min_message types =
     ''Cannot determine final dtype of 'min' call with arguments of different ''
     @ ''types ('' @ types @ ''). Please cast arguments to the desired dtype''"

text \<open>The slots both constructors copy from the aggregate.\<close>

definition copied_slots :: "node \<Rightarrow> (dtype \<times> int \<times> dtype) option" where
  "copied_slots x =
     (case signature x of
        None \<Rightarrow> None
      | Some s \<Rightarrow> map_option (\<lambda>c. (sig_dtype s, sig_precision s, c)) (sig_class_type s))"

definition PythonMax_init :: "(node \<Rightarrow> int) \<Rightarrow> string \<Rightarrow> argument list \<Rightarrow> error + node" where
  "PythonMax_init final_precision stage args =
     (case aggregate_of final_precision stage args of
        Inl e \<Rightarrow> Inl e
      | Inr x \<Rightarrow>
         (case is_homogeneous x of
            None \<Rightarrow> Inl AttributeError
          | Some False \<Rightarrow> Inl (PyccelError (max_message (max_types x)))
          | Some True \<Rightarrow>
             (case copied_slots x of
                None \<Rightarrow> Inl AttributeError
              | Some (d, p, c) \<Rightarrow> Inr (PythonMax x d p c))))"

definition PythonMin_init :: "(dtype \<Rightarrow> string) \<Rightarrow> (node \<Rightarrow> int) \<Rightarrow> string \<Rightarrow> argument list \<Rightarrow> error + node" where
  "PythonMin_init str_dtype final_precision stage args =
     (case aggregate_of final_precision stage args of
        Inl e \<Rightarrow> Inl e
      | Inr x \<Rightarrow>
         (case is_homogeneous x of
            None \<Rightarrow> Inl AttributeError
          | Some False \<Rightarrow>
             (case min_types str_dtype x of
                None \<Rightarrow> Inl AttributeError
              | Some types \<Rightarrow> Inl (PyccelError (min_message types)))
          | Some True \<Rightarrow>
             (case copied_slots x of
                None \<Rightarrow> Inl AttributeError
              | Some (d, p, c) \<Rightarrow> Inr (PythonMin x d p c))))"

subsection \<open>The absent optional argument\<close>

text \<open>
  The truth value of a built expression in a call where the optional argument was not
  passed: the presence test \<open>arg is not None\<close> fails, a conjunction holds when both
  sides hold, and every other expression is taken to hold. It is used to run the result
  of the boolean cast on a concrete input.
\<close>

fun truth_when_absent :: "built \<Rightarrow> bool" where
  "truth_when_absent (PyccelAnd a b) = (truth_when_absent a \<and> truth_when_absent b)"
| "truth_when_absent (PyccelIsNot a b) = False"
| "truth_when_absent e = True"

section \<open>The argument and result wrappers of pyccel/ast/bind_c.py\<close>

text \<open>
  A variable, as far as the wrappers read it: its name, its kind and its rank. The class
  is defined in the variable module.
\<close>

record variable =
  var_name :: string
  var_dtype :: dtype
  var_rank :: nat

text \<open>
  The scope is an object of the parser; the wrappers only call its method
  \<open>get_temporary_variable(dtype, name = ...)\<close>, which returns a variable and may change
  the scope. The method is the parameter \<open>get_temporary_variable\<close>, a function from
  the scope, the kind and the requested name to the variable and the new scope.
  \<open>temporary_variables\<close> is the list comprehension that calls it once for each
  requested name, in order.
\<close>

fun temporary_variables :: "('s \<Rightarrow> dtype \<Rightarrow> string \<Rightarrow> variable \<times> 's) \<Rightarrow> 's \<Rightarrow> string list \<Rightarrow> variable list \<times> 's" where
  "temporary_variables get_temporary_variable scope [] = ([], scope)"
| "temporary_variables get_temporary_variable scope (n # ns) =
     (case get_temporary_variable scope NativeInteger n of
        (v, scope') \<Rightarrow>
          (case temporary_variables get_temporary_variable scope' ns of
             (vs, scope'') \<Rightarrow> (v # vs, scope'')))"

text \<open>The names \<open>f'{name}_shape_{i+1}'\<close> and \<open>f'{name}_stride_{i+1}'\<close> for \<open>i\<close> in \<open>range(rank)\<close>.\<close>

definition shape_names :: "string \<Rightarrow> nat \<Rightarrow> string list" where
  "shape_names nm r = map (\<lambda>i. nm @ ''_shape_'' @ str_nat (i + 1)) [0..<r]"

definition stride_names :: "string \<Rightarrow> nat \<Rightarrow> string list" where
  "stride_names nm r = map (\<lambda>i. nm @ ''_stride_'' @ str_nat (i + 1)) [0..<r]"

text \<open>
  Modelled from the spec: the base class \<open>FunctionDefArgument\<close> is in the core module; of
  the state it keeps, the wrapper reads the variable and the flag that the inherited
  property \<open>inout\<close> reports, which the spec calls the caller-supplied mutability of the
  wrapped value. The flag is passed to the constructor in place of the keyword
  arguments.
\<close>

record BindCFunctionDefArgument =
  arg_var :: variable
  base_inout :: bool
  arg_shape :: "variable list"
  arg_strides :: "variable list"
  original_arg_var :: variable
  arg_rank :: nat

definition BindCFunctionDefArgument_init ::
  "('s \<Rightarrow> dtype \<Rightarrow> string \<Rightarrow> variable \<times> 's) \<Rightarrow> variable \<Rightarrow> 's \<Rightarrow> variable \<Rightarrow> bool
     \<Rightarrow> BindCFunctionDefArgument \<times> 's" where
  "BindCFunctionDefArgument_init get_temporary_variable var scope original inout_kw =
     (let nm = var_name var;
          r = var_rank original
      in case temporary_variables get_temporary_variable scope (shape_names nm r) of
           (shape, scope1) \<Rightarrow>
             (case temporary_variables get_temporary_variable scope1 (stride_names nm r) of
                (strides, scope2) \<Rightarrow>
                  (\<lparr> arg_var = var, base_inout = inout_kw, arg_shape = shape,
                      arg_strides = strides, original_arg_var = original, arg_rank = r \<rparr>,
                   scope2)))"

text \<open>
  The descriptors that \<open>get_all_function_def_arguments\<close> returns: the wrapper itself and
  a plain \<open>FunctionDefArgument\<close> around each shape and stride variable.
\<close>

datatype argument_descriptor =
    Self BindCFunctionDefArgument
  | FunctionDefArgument variable

definition get_all_function_def_arguments :: "BindCFunctionDefArgument \<Rightarrow> argument_descriptor list" where
  "get_all_function_def_arguments self =
     [Self self] @ map FunctionDefArgument (arg_shape self)
       @ map FunctionDefArgument (arg_strides self)"

text \<open>
  The property \<open>inout\<close> of the wrapper: a list of flags for an array argument, the
  inherited flag for a scalar.
\<close>

datatype inout_report = Flag bool | Flags "bool list"

definition inout :: "BindCFunctionDefArgument \<Rightarrow> inout_report" where
  "inout self =
     (if arg_rank self \<noteq> 0
      then Flags ([False] @ concat (replicate (arg_rank self) [False, False]))
      else Flag (base_inout self))"

text \<open>The result wrapper: the name and the rank are those of the original result.\<close>

record BindCFunctionDefResult =
  res_var :: variable
  res_shape :: "variable list"
  original_res_var :: variable

definition BindCFunctionDefResult_init ::
  "('s \<Rightarrow> dtype \<Rightarrow> string \<Rightarrow> variable \<times> 's) \<Rightarrow> variable \<Rightarrow> variable \<Rightarrow> 's
     \<Rightarrow> BindCFunctionDefResult \<times> 's" where
  "BindCFunctionDefResult_init get_temporary_variable var original scope =
     (let nm = var_name original
      in case temporary_variables get_temporary_variable scope
                (shape_names nm (var_rank original)) of
           (shape, scope1) \<Rightarrow>
             (\<lparr> res_var = var, res_shape = shape, original_res_var = original \<rparr>, scope1))"

datatype result_descriptor =
    SelfResult BindCFunctionDefResult
  | FunctionDefResult variable

definition get_all_function_def_results :: "BindCFunctionDefResult \<Rightarrow> result_descriptor list" where
  "get_all_function_def_results self =
     [SelfResult self] @ map FunctionDefResult (res_shape self)"

text \<open>
  A scope that grants every requested name: it hands out a scalar variable of the
  requested kind and name and records the name. It is used to run the wrappers on
  concrete inputs.
\<close>

definition granting_scope :: "string list \<Rightarrow> dtype \<Rightarrow> string \<Rightarrow> variable \<times> string list" where
  "granting_scope scope d n = (\<lparr> var_name = n, var_dtype = d, var_rank = 0 \<rparr>, scope @ [n])"

text \<open>
  Variables used to run the wrappers: a float array of rank 2 and a float vector, each
  with the pointer variable of the same name that is passed in its place, and a float
  scalar.
\<close>

definition arr :: variable where
  "arr = \<lparr> var_name = ''arr'', var_dtype = NativeFloat, var_rank = 2 \<rparr>"

definition arr_pointer :: variable where
  "arr_pointer = \<lparr> var_name = ''arr'', var_dtype = BindCPointer, var_rank = 0 \<rparr>"

definition vec :: variable where
  "vec = \<lparr> var_name = ''vec'', var_dtype = NativeFloat, var_rank = 1 \<rparr>"

definition vec_pointer :: variable where
  "vec_pointer = \<lparr> var_name = ''vec'', var_dtype = BindCPointer, var_rank = 0 \<rparr>"

definition scalar_x :: variable where
  "scalar_x = \<lparr> var_name = ''x'', var_dtype = NativeFloat, var_rank = 0 \<rparr>"

section \<open>Results on the factories of builtins.py\<close>

subsection \<open>The rounding of binary64\<close>











subsection \<open>The complex factory on literals\<close>


























subsection \<open>Casts\<close>

text \<open>
  C2, as amended. The casts eliminate no identity cast of a non-literal operand. A float
  literal that already has the target precision is returned by \<open>PythonFloat\<close> as the
  very same object. \<open>PythonInt\<close> answers an integer literal with a freshly built
  integer literal of the same value at the target precision. Every operand that is not a
  literal, whatever its kind, is wrapped in a fresh \<open>PythonFloat\<close> or \<open>PythonInt\<close>
  node, and \<open>PythonBool\<close> wraps every operand that is not flagged optional, literal
  or not.
\<close>

theorem cast_factories_amended:
  "PythonFloat_new (LiteralFloat v cast_precision) = Existing (LiteralFloat v cast_precision)
   \<and> PythonInt_new (LiteralInteger i p) = Fresh (LiteralInteger i cast_precision)
   \<and> (\<not> isinstance_Literal x \<longrightarrow>
        PythonFloat_new x = Fresh (PythonFloat x) \<and> PythonInt_new x = Fresh (PythonInt x))
   \<and> (is_optional x \<noteq> Some True \<longrightarrow> PythonBool_new x = Fresh (PythonBool x))"
proof (intro conjI impI)
  show "PythonFloat_new (LiteralFloat v cast_precision) = Existing (LiteralFloat v cast_precision)"
    by simp
  show "PythonInt_new (LiteralInteger i p) = Fresh (LiteralInteger i cast_precision)"
    by simp
next
  assume "\<not> isinstance_Literal x"
  then show "PythonFloat_new x = Fresh (PythonFloat x)"
    by (cases x) simp_all
next
  assume "\<not> isinstance_Literal x"
  then show "PythonInt_new x = Fresh (PythonInt x)"
    by (cases x) simp_all
next
  assume "is_optional x \<noteq> Some True"
  then show "PythonBool_new x = Fresh (PythonBool x)"
    by (simp add: PythonBool_new_def)
qed

theorem cast_factories_amended_witness:
  "\<not> isinstance_Literal float_value \<and> is_optional float_value \<noteq> Some True
   \<and> PythonFloat_new float_value = Fresh (PythonFloat float_value)
   \<and> PythonInt_new float_value = Fresh (PythonInt float_value)
   \<and> PythonBool_new float_value = Fresh (PythonBool float_value)
   \<and> PythonFloat_new (LiteralFloat 2 (-1)) = Existing (LiteralFloat 2 (-1))
   \<and> PythonInt_new (LiteralInteger 7 8) = Fresh (LiteralInteger 7 (-1))"
  using cast_factories_amended [of 2 7 8 float_value]
  by (simp add: float_value_def cast_precision_def)

theorem identity_cast_counterexample:
  "signature float_value = Some (scalar_signature NativeFloat (-1))
   \<and> \<not> isinstance_Literal float_value
   \<and> PythonFloat_new float_value = Fresh (PythonFloat float_value)
   \<and> PythonFloat_new float_value \<noteq> Existing float_value
   \<and> signature int_value = Some (scalar_signature NativeInteger (-1))
   \<and> PythonInt_new int_value \<noteq> Existing int_value
   \<and> signature bool_value = Some (scalar_signature NativeBool (-1))
   \<and> PythonBool_new bool_value \<noteq> Existing bool_value
   \<and> PythonInt_new (LiteralInteger 7 (-1)) \<noteq> Existing (LiteralInteger 7 (-1))
   \<and> PythonBool_new (LiteralTrue (-1)) \<noteq> Existing (LiteralTrue (-1))"
  by (simp add: PythonBool_new_def float_value_def int_value_def bool_value_def)

text \<open>
  C10. For an argument flagged optional the boolean cast does not return a
  \<open>PythonBool\<close> node but the conjunction
  \<open>PyccelAnd(PyccelIsNot(arg, Nil()), PythonBool(arg))\<close>; under every reading of built
  expressions as truth values that reads \<open>PyccelAnd\<close> as conjunction, the result is
  false whenever the presence test is false, that is when the argument is absent. For
  every other argument the cast returns a plain \<open>PythonBool\<close> node, whose kind is
  boolean and whose rank is 0.
\<close>

theorem PythonBool_optional:
  "(is_optional arg = Some True \<longrightarrow>
      PythonBool_new arg = PyccelAnd (PyccelIsNot (Existing arg) (Fresh Nil)) (Fresh (PythonBool arg))
      \<and> PythonBool_new arg \<noteq> Fresh (PythonBool arg)
      \<and> (\<forall>truth. (\<forall>a b. truth (PyccelAnd a b) = (truth a \<and> truth b))
             \<longrightarrow> \<not> truth (PyccelIsNot (Existing arg) (Fresh Nil))
             \<longrightarrow> \<not> truth (PythonBool_new arg)))
   \<and> (is_optional arg \<noteq> Some True \<longrightarrow> PythonBool_new arg = Fresh (PythonBool arg))
   \<and> signature (PythonBool arg) = Some (Signature NativeBool (-1) 0 None None (Some NativeBool))"
  by (simp add: PythonBool_new_def scalar_signature_def)

theorem PythonBool_optional_witness:
  "is_optional optional_value = Some True
   \<and> PythonBool_new optional_value
       = PyccelAnd (PyccelIsNot (Existing optional_value) (Fresh Nil))
           (Fresh (PythonBool optional_value))
   \<and> \<not> truth_when_absent (PythonBool_new optional_value)
   \<and> is_optional float_value \<noteq> Some True
   \<and> PythonBool_new float_value = Fresh (PythonBool float_value)"
proof -
  have opt: "is_optional optional_value = Some True"
    by (simp add: optional_value_def)
  have conj_truth:
    "\<forall>a b. truth_when_absent (PyccelAnd a b) = (truth_when_absent a \<and> truth_when_absent b)"
    by simp
  have absent: "\<not> truth_when_absent (PyccelIsNot (Existing optional_value) (Fresh Nil))"
    by simp
  from PythonBool_optional [of optional_value] opt
  have a: "PythonBool_new optional_value
       = PyccelAnd (PyccelIsNot (Existing optional_value) (Fresh Nil))
           (Fresh (PythonBool optional_value))"
    and b: "\<forall>truth. (\<forall>a b. truth (PyccelAnd a b) = (truth a \<and> truth b))
             \<longrightarrow> \<not> truth (PyccelIsNot (Existing optional_value) (Fresh Nil))
             \<longrightarrow> \<not> truth (PythonBool_new optional_value)"
    by blast+
  from b conj_truth absent
  have c: "\<not> truth_when_absent (PythonBool_new optional_value)"
    by blast
  have d: "is_optional float_value \<noteq> Some True" by (simp add: float_value_def)
  from PythonBool_optional [of float_value] d
  have e: "PythonBool_new float_value = Fresh (PythonBool float_value)"
    by blast
  from opt a c d e show ?thesis by blast
qed

subsection \<open>Tuples and lists\<close>

lemma signatures_Cons:
  "signatures (a # as) = Some sigs \<longleftrightarrow>
     (\<exists>s ss. signature a = Some s \<and> signatures as = Some ss \<and> sigs = s # ss)"
  by (auto simp: signatures_def split: option.splits)

lemma signatures_Nil: "signatures [] = Some []"
  by (simp add: signatures_def)

lemma signatures_length: "signatures args = Some sigs \<Longrightarrow> length sigs = length args"
  by (induction args arbitrary: sigs) (auto simp: signatures_Cons signatures_Nil)

lemma signatures_member:
  "signatures args = Some sigs \<Longrightarrow> a \<in> set args \<Longrightarrow> \<exists>s \<in> set sigs. signature a = Some s"
  by (induction args arbitrary: sigs) (auto simp: signatures_Cons signatures_Nil)

lemma signatures_member_sig:
  "signatures args = Some sigs \<Longrightarrow> s \<in> set sigs \<Longrightarrow> \<exists>a \<in> set args. signature a = Some s"
  by (induction args arbitrary: sigs) (auto simp: signatures_Cons signatures_Nil)

lemma all_like_arg0_typed:
  "signatures rest = Some sigs \<Longrightarrow>
   all_like_arg0 fp arg0 s0 rest = Inr (\<forall>a \<in> set rest. like fp arg0 s0 a)"
proof (induction rest arbitrary: sigs)
  case Nil
  then show ?case by simp
next
  case (Cons a as)
  from Cons.prems obtain s ss where s: "signature a = Some s" and ss: "signatures as = Some ss"
    by (auto simp: signatures_Cons)
  show ?case
    using Cons.IH [OF ss] s by (auto simp: like_def)
qed

lemma compute_is_homogeneous_typed:
  assumes "signature arg0 = Some s0" and "signatures rest = Some sigs"
  shows "compute_is_homogeneous fp arg0 s0 rest =
           Inr (pairwise_identical fp (arg0 # rest) \<and> \<not> (\<exists>a \<in> set (arg0 # rest). generic_kind a))"
proof -
  have typed: "\<And>a. a \<in> set rest \<Longrightarrow> \<exists>s. signature a = Some s"
    using signatures_member [OF assms(2)] by blast
  have "(sig_dtype s0 \<noteq> NativeGeneric \<and> (\<forall>a \<in> set rest. like fp arg0 s0 a)) \<longleftrightarrow>
        (pairwise_identical fp (arg0 # rest) \<and> \<not> (\<exists>a \<in> set (arg0 # rest). generic_kind a))"
    (is "?L \<longleftrightarrow> ?R")
  proof
    assume L: ?L
    have same0: "\<And>a. a \<in> set (arg0 # rest) \<Longrightarrow> same_type fp arg0 a \<and> \<not> generic_kind a"
      using L assms(1) by (auto simp: like_def same_type_def generic_kind_def)
    have "\<And>a b. a \<in> set (arg0 # rest) \<Longrightarrow> b \<in> set (arg0 # rest) \<Longrightarrow> same_type fp a b"
    proof -
      fix a b assume "a \<in> set (arg0 # rest)" "b \<in> set (arg0 # rest)"
      then have "same_type fp arg0 a" "same_type fp arg0 b" using same0 by blast+
      then show "same_type fp a b" by (simp add: same_type_def)
    qed
    then show ?R using same0 by (auto simp: pairwise_identical_def)
  next
    assume R: ?R
    then have ng: "sig_dtype s0 \<noteq> NativeGeneric"
      using assms(1) by (auto simp: generic_kind_def)
    have "\<And>a. a \<in> set rest \<Longrightarrow> like fp arg0 s0 a"
    proof -
      fix a assume a: "a \<in> set rest"
      then obtain s where s: "signature a = Some s" using typed by blast
      from R a have "same_type fp arg0 a" "\<not> generic_kind a"
        by (auto simp: pairwise_identical_def)
      then show "like fp arg0 s0 a"
        using s assms(1) by (auto simp: like_def same_type_def generic_kind_def)
    qed
    then show ?L using ng by blast
  qed
  then show ?thesis
    using all_like_arg0_typed [OF assms(2), of fp arg0 s0]
    by (auto simp: compute_is_homogeneous_def)
qed

lemma max_rank_of_Max: "max_rank_of s0 sigs = Max (sig_rank ` set (s0 # sigs))"
proof -
  have "fold max (map sig_rank sigs) (sig_rank s0) = Max (set (sig_rank s0 # map sig_rank sigs))"
    by (rule Max.set_eq_fold [symmetric])
  then show ?thesis by (simp add: max_rank_of_def)
qed

lemma signatures_exist:
  "(\<And>a. a \<in> set args \<Longrightarrow> signature a \<noteq> None) \<Longrightarrow> \<exists>sigs. signatures args = Some sigs"
  by (induction args) (auto simp: signatures_Cons signatures_Nil)

lemma homogeneous_signature_shape:
  assumes "signature arg0 = Some s0" and "of_shape S arg0"
  shows "homogeneous_signature args s0 ct =
           Inr (Signature (sig_dtype s0) (sig_precision s0) (length S + 1)
                  (Some (Some (length_literal args) # S)) (order_of_rank (length S + 1)) (Some ct))"
  using assms by (auto simp: homogeneous_signature_def of_shape_def Let_def split: if_splits)

lemma homogeneous_signature_error:
  "homogeneous_signature args s0 ct = Inl e \<Longrightarrow> e = NoneTypeError"
  by (auto simp: homogeneous_signature_def Let_def split: option.splits if_splits)

text \<open>
  C6. Outside the syntactic stage, a tuple or a list built from \<open>n \<ge> 1\<close> elements
  that are pairwise identical in kind, final precision, rank and order, none of generic
  kind, each of shape \<open>S\<close>, is homogeneous; its shape is \<open>(n,) + S\<close>, its rank
  \<open>len(S) + 1\<close>, and its order is \<open>'C'\<close> when that rank is at least 2 and
  \<open>None\<close> otherwise. (The empty aggregate is the separate generic case of rank 0.)
\<close>

theorem homogeneous_shape_law:
  assumes "stage \<noteq> ''syntactic''" and "length args = n" and "0 < n"
    and "pairwise_identical fp args"
    and "\<forall>a \<in> set args. \<not> generic_kind a \<and> of_shape S a"
  shows "\<exists>st sl.
           PythonTuple_init fp stage args = Inr (PythonTuple args (Some (True, st)))
           \<and> PythonList_init fp stage args = Inr (PythonList args (Some sl))
           \<and> sig_shape st = Some (Some (LiteralInteger (int n) (-1)) # S)
           \<and> sig_rank st = length S + 1
           \<and> sig_order st = (if 2 \<le> length S + 1 then Some ''C'' else None)
           \<and> sig_shape sl = Some (Some (LiteralInteger (int n) (-1)) # S)
           \<and> sig_rank sl = length S + 1
           \<and> sig_order sl = (if 2 \<le> length S + 1 then Some ''C'' else None)"
proof -
  from assms(2,3) obtain arg0 rest where args: "args = arg0 # rest" by (cases args) auto
  from assms(5) args have sh0: "of_shape S arg0" by simp
  then obtain s0 where s0: "signature arg0 = Some s0"
    by (auto simp: of_shape_def split: option.splits)
  have "\<And>a. a \<in> set rest \<Longrightarrow> signature a \<noteq> None"
    using assms(5) args by (auto simp: of_shape_def split: option.splits)
  then obtain sigs where sigs: "signatures rest = Some sigs"
    using signatures_exist by blast
  have h: "compute_is_homogeneous fp arg0 s0 rest = Inr True"
    using compute_is_homogeneous_typed [OF s0 sigs, of fp] assms(4,5) args by auto
  have n: "length_literal args = LiteralInteger (int n) (-1)"
    using assms(2) by (simp add: length_literal_def)
  note hs = homogeneous_signature_shape [OF s0 sh0, of args, unfolded n]
  have t: "PythonTuple_init fp stage args =
      Inr (PythonTuple args (Some (True,
        Signature (sig_dtype s0) (sig_precision s0) (length S + 1)
          (Some (Some (LiteralInteger (int n) (-1)) # S)) (order_of_rank (length S + 1))
          (Some NativeHomogeneousTuple))))"
    using assms(1) s0 sigs h hs [of NativeHomogeneousTuple]
    by (simp add: PythonTuple_init_def args)
  have l: "PythonList_init fp stage args =
      Inr (PythonList args (Some
        (Signature (sig_dtype s0) (sig_precision s0) (length S + 1)
          (Some (Some (LiteralInteger (int n) (-1)) # S)) (order_of_rank (length S + 1))
          (Some NativeHomogeneousList))))"
    using assms(1) s0 sigs h hs [of NativeHomogeneousList]
    by (simp add: PythonList_init_def args)
  show ?thesis
    using t l by (cases S) (auto simp: order_of_rank_def)
qed

theorem homogeneous_shape_law_witness:
  "''semantic'' \<noteq> ''syntactic''
   \<and> length [float_vector, float_vector, float_vector] = 3 \<and> (0::nat) < 3
   \<and> pairwise_identical declared_precision [float_vector, float_vector, float_vector]
   \<and> \<not> generic_kind float_vector \<and> of_shape [Some size_n] float_vector
   \<and> (\<exists>st sl.
         PythonTuple_init declared_precision ''semantic'' [float_vector, float_vector, float_vector]
           = Inr (PythonTuple [float_vector, float_vector, float_vector] (Some (True, st)))
         \<and> PythonList_init declared_precision ''semantic'' [float_vector, float_vector, float_vector]
           = Inr (PythonList [float_vector, float_vector, float_vector] (Some sl))
         \<and> sig_shape st = Some [Some (LiteralInteger 3 (-1)), Some size_n]
         \<and> sig_rank st = 2 \<and> sig_order st = Some ''C''
         \<and> sig_shape sl = Some [Some (LiteralInteger 3 (-1)), Some size_n]
         \<and> sig_rank sl = 2 \<and> sig_order sl = Some ''C'')
   \<and> length [int_value, int_value] = 2 \<and> (0::nat) < 2
   \<and> pairwise_identical declared_precision [int_value, int_value]
   \<and> \<not> generic_kind int_value \<and> of_shape [] int_value
   \<and> (\<exists>st sl.
         PythonTuple_init declared_precision ''semantic'' [int_value, int_value]
           = Inr (PythonTuple [int_value, int_value] (Some (True, st)))
         \<and> PythonList_init declared_precision ''semantic'' [int_value, int_value]
           = Inr (PythonList [int_value, int_value] (Some sl))
         \<and> sig_shape st = Some [Some (LiteralInteger 2 (-1))]
         \<and> sig_rank st = 1 \<and> sig_order st = None
         \<and> sig_shape sl = Some [Some (LiteralInteger 2 (-1))]
         \<and> sig_rank sl = 1 \<and> sig_order sl = None)"
proof -
  have a: "''semantic'' \<noteq> ''syntactic''" by simp
  have b: "length [float_vector, float_vector, float_vector] = 3" by simp
  have b': "(0::nat) < 3" by simp
  have c: "pairwise_identical declared_precision [float_vector, float_vector, float_vector]"
    by (simp add: pairwise_identical_def same_type_def)
  have d: "\<not> generic_kind float_vector" by (simp add: generic_kind_def float_vector_def)
  have e: "of_shape [Some size_n] float_vector" by (simp add: of_shape_def float_vector_def)
  have f: "\<forall>a \<in> set [float_vector, float_vector, float_vector].
             \<not> generic_kind a \<and> of_shape [Some size_n] a"
    using d e by simp
  have g: "length [int_value, int_value] = 2" by simp
  have g': "(0::nat) < 2" by simp
  have h: "pairwise_identical declared_precision [int_value, int_value]"
    by (simp add: pairwise_identical_def same_type_def)
  have i: "\<not> generic_kind int_value"
    by (simp add: generic_kind_def int_value_def scalar_signature_def)
  have j: "of_shape [] int_value"
    by (simp add: of_shape_def int_value_def scalar_signature_def)
  have k: "\<forall>a \<in> set [int_value, int_value]. \<not> generic_kind a \<and> of_shape [] a"
    using i j by simp
  from homogeneous_shape_law [OF a b b' c f]
  have v: "\<exists>st sl.
         PythonTuple_init declared_precision ''semantic'' [float_vector, float_vector, float_vector]
           = Inr (PythonTuple [float_vector, float_vector, float_vector] (Some (True, st)))
         \<and> PythonList_init declared_precision ''semantic'' [float_vector, float_vector, float_vector]
           = Inr (PythonList [float_vector, float_vector, float_vector] (Some sl))
         \<and> sig_shape st = Some [Some (LiteralInteger 3 (-1)), Some size_n]
         \<and> sig_rank st = 2 \<and> sig_order st = Some ''C''
         \<and> sig_shape sl = Some [Some (LiteralInteger 3 (-1)), Some size_n]
         \<and> sig_rank sl = 2 \<and> sig_order sl = Some ''C''"
    by (simp add: numeral_2_eq_2)
  from homogeneous_shape_law [OF a g g' h k]
  have s: "\<exists>st sl.
         PythonTuple_init declared_precision ''semantic'' [int_value, int_value]
           = Inr (PythonTuple [int_value, int_value] (Some (True, st)))
         \<and> PythonList_init declared_precision ''semantic'' [int_value, int_value]
           = Inr (PythonList [int_value, int_value] (Some sl))
         \<and> sig_shape st = Some [Some (LiteralInteger 2 (-1))]
         \<and> sig_rank st = 1 \<and> sig_order st = None
         \<and> sig_shape sl = Some [Some (LiteralInteger 2 (-1))]
         \<and> sig_rank sl = 1 \<and> sig_order sl = None"
    by simp
  from a b b' c d e v g g' h i j s show ?thesis by blast
qed

lemma inhomogeneous_signature_ranks_differ:
  assumes "\<exists>s \<in> set (s0 # sigs). \<exists>s' \<in> set (s0 # sigs). sig_rank s \<noteq> sig_rank s'"
  shows "inhomogeneous_signature args s0 sigs =
           Inr (Signature (NativeInhomogeneousTuple (map sig_dtype (s0 # sigs))) 0
                  (Max (sig_rank ` set (s0 # sigs)) + 1)
                  (Some (Some (length_literal args)
                     # replicate (Max (sig_rank ` set (s0 # sigs))) None))
                  (Some ''C'')
                  (Some (NativeInhomogeneousTuple (map sig_dtype (s0 # sigs)))))"
proof -
  let ?R = "sig_rank ` set (s0 # sigs)"
  let ?m = "Max ?R"
  have fin: "finite ?R" by simp
  from assms obtain s s' where ss: "s \<in> set (s0 # sigs)" "s' \<in> set (s0 # sigs)"
    "sig_rank s \<noteq> sig_rank s'" by blast
  have le: "sig_rank s \<le> ?m" "sig_rank s' \<le> ?m"
    using ss(1,2) fin by (meson Max_ge imageI)+
  with ss(3) have pos: "0 < ?m" by linarith
  have ex: "\<exists>s \<in> set (s0 # sigs). sig_rank s \<noteq> ?m"
    using ss by metis
  show ?thesis
    using pos ex
    by (simp add: inhomogeneous_signature_def Let_def max_rank_of_Max order_of_rank_def
             del: set_simps image_insert list.map Max_insert)
qed

lemma inhomogeneous_signature_succeeds:
  assumes "sig_rank s0 = 0 \<or> sig_shape s0 \<noteq> None"
  shows "\<exists>st. inhomogeneous_signature args s0 sigs = Inr st"
proof (cases "max_rank_of s0 sigs = 0")
  case True
  then show ?thesis by (simp add: inhomogeneous_signature_def Let_def)
next
  case False
  show ?thesis
  proof (cases "\<exists>s \<in> set (s0 # sigs). sig_rank s \<noteq> max_rank_of s0 sigs")
    case True
    then show ?thesis using False
      by (simp add: inhomogeneous_signature_def Let_def del: set_simps)
  next
    case nodiff: False
    then have "sig_rank s0 = max_rank_of s0 sigs" by simp
    with False assms obtain sh where "sig_shape s0 = Some sh" by auto
    then show ?thesis using False nodiff
      by (simp add: inhomogeneous_signature_def Let_def del: set_simps)
  qed
qed

text \<open>
  C5, as amended. Outside the syntactic stage, for elements that all carry a signature,
  the list constructor fails with the TypeError "Can't create an inhomogeneous list" if
  and only if the elements are not pairwise identical in kind, final precision, rank and
  order, or one of them is of generic kind. On such elements the tuple constructor
  succeeds with \<open>is_homogeneous = False\<close> (provided that the first element is a scalar
  or has a shape), and when the ranks of the elements differ, its shape is the number of
  elements followed by one unknown dimension for each dimension of the largest rank.
\<close>

theorem homogeneity_law_amended:
  assumes "stage \<noteq> ''syntactic''"
    and "signature arg0 = Some s0" and "signatures rest = Some sigs"
  shows "(PythonList_init fp stage (arg0 # rest) = Inl (TypeError ''Can't create an inhomogeneous list'')
           \<longleftrightarrow> \<not> pairwise_identical fp (arg0 # rest) \<or> (\<exists>a \<in> set (arg0 # rest). generic_kind a))
    \<and> (\<not> pairwise_identical fp (arg0 # rest) \<or> (\<exists>a \<in> set (arg0 # rest). generic_kind a) \<longrightarrow>
         (sig_rank s0 = 0 \<or> sig_shape s0 \<noteq> None \<longrightarrow>
            (\<exists>st. PythonTuple_init fp stage (arg0 # rest)
                    = Inr (PythonTuple (arg0 # rest) (Some (False, st)))))
         \<and> ((\<exists>s \<in> set (s0 # sigs). \<exists>s' \<in> set (s0 # sigs). sig_rank s \<noteq> sig_rank s') \<longrightarrow>
            (\<exists>st. PythonTuple_init fp stage (arg0 # rest)
                    = Inr (PythonTuple (arg0 # rest) (Some (False, st)))
                  \<and> sig_shape st = Some (Some (LiteralInteger (int (length (arg0 # rest))) (-1))
                      # replicate (Max (sig_rank ` set (s0 # sigs))) None)
                  \<and> sig_rank st = Max (sig_rank ` set (s0 # sigs)) + 1)))"
proof -
  let ?inh = "\<not> pairwise_identical fp (arg0 # rest) \<or> (\<exists>a \<in> set (arg0 # rest). generic_kind a)"
  note h = compute_is_homogeneous_typed [OF assms(2,3), of fp]
  have list_fail: "PythonList_init fp stage (arg0 # rest)
        = Inl (TypeError ''Can't create an inhomogeneous list'') \<longleftrightarrow> ?inh"
  proof (cases ?inh)
    case True
    then have "compute_is_homogeneous fp arg0 s0 rest = Inr False" using h by auto
    then show ?thesis using True assms(1,2) by (simp add: PythonList_init_def)
  next
    case False
    then have "compute_is_homogeneous fp arg0 s0 rest = Inr True" using h by auto
    then show ?thesis using False assms(1,2)
      by (auto simp: PythonList_init_def split: sum.splits dest: homogeneous_signature_error)
  qed
  have tuple: "?inh \<Longrightarrow> PythonTuple_init fp stage (arg0 # rest) =
      (case inhomogeneous_signature (arg0 # rest) s0 sigs of
         Inl e \<Rightarrow> Inl e | Inr s \<Rightarrow> Inr (PythonTuple (arg0 # rest) (Some (False, s))))"
  proof -
    assume ?inh
    then have "compute_is_homogeneous fp arg0 s0 rest = Inr False" using h by auto
    then show ?thesis using assms by (simp add: PythonTuple_init_def)
  qed
  have t1: "?inh \<Longrightarrow> sig_rank s0 = 0 \<or> sig_shape s0 \<noteq> None \<Longrightarrow>
      \<exists>st. PythonTuple_init fp stage (arg0 # rest) = Inr (PythonTuple (arg0 # rest) (Some (False, st)))"
  proof -
    assume i: ?inh and w: "sig_rank s0 = 0 \<or> sig_shape s0 \<noteq> None"
    from inhomogeneous_signature_succeeds [OF w, of "arg0 # rest" sigs]
    obtain st where "inhomogeneous_signature (arg0 # rest) s0 sigs = Inr st" by blast
    then show ?thesis using tuple [OF i] by simp
  qed
  have t2: "?inh \<Longrightarrow> \<exists>s \<in> set (s0 # sigs). \<exists>s' \<in> set (s0 # sigs). sig_rank s \<noteq> sig_rank s' \<Longrightarrow>
      \<exists>st. PythonTuple_init fp stage (arg0 # rest) = Inr (PythonTuple (arg0 # rest) (Some (False, st)))
            \<and> sig_shape st = Some (Some (LiteralInteger (int (length (arg0 # rest))) (-1))
                      # replicate (Max (sig_rank ` set (s0 # sigs))) None)
            \<and> sig_rank st = Max (sig_rank ` set (s0 # sigs)) + 1"
  proof -
    assume i: ?inh and d: "\<exists>s \<in> set (s0 # sigs). \<exists>s' \<in> set (s0 # sigs). sig_rank s \<noteq> sig_rank s'"
    show ?thesis
      using tuple [OF i] inhomogeneous_signature_ranks_differ [OF d, of "arg0 # rest"]
      by (simp add: length_literal_def)
  qed
  show ?thesis using list_fail t1 t2 by blast
qed

theorem homogeneity_law_counterexample:
  "PythonTuple_init declared_precision ''semantic'' [] = Inr empty_tuple
   \<and> pairwise_identical declared_precision [empty_tuple, empty_tuple, empty_tuple]
   \<and> PythonList_init declared_precision ''semantic'' [empty_tuple, empty_tuple, empty_tuple]
       = Inl (TypeError ''Can't create an inhomogeneous list'')"
  by (simp add: PythonTuple_init_def PythonList_init_def empty_tuple_def
      pairwise_identical_def same_type_def compute_is_homogeneous_def)

theorem homogeneity_law_amended_witness:
  "''semantic'' \<noteq> ''syntactic''
   \<and> signature int_value = Some (scalar_signature NativeInteger (-1))
   \<and> signatures [float_value, float_vector]
       = Some [scalar_signature NativeFloat (-1),
               Signature NativeFloat (-1) 1 (Some [Some size_n]) None (Some NativeFloat)]
   \<and> \<not> pairwise_identical declared_precision [int_value, float_value, float_vector]
   \<and> PythonList_init declared_precision ''semantic'' [int_value, float_value, float_vector]
       = Inl (TypeError ''Can't create an inhomogeneous list'')
   \<and> (\<exists>st. PythonTuple_init declared_precision ''semantic'' [int_value, float_value, float_vector]
             = Inr (PythonTuple [int_value, float_value, float_vector] (Some (False, st)))
           \<and> sig_shape st = Some [Some (LiteralInteger 3 (-1)), None]
           \<and> sig_rank st = 2)"
proof -
  let ?s0 = "scalar_signature NativeInteger (-1)"
  let ?sigs = "[scalar_signature NativeFloat (-1),
               Signature NativeFloat (-1) 1 (Some [Some size_n]) None (Some NativeFloat)]"
  have a: "''semantic'' \<noteq> ''syntactic''" by simp
  have b: "signature int_value = Some ?s0" by (simp add: int_value_def)
  have c: "signatures [float_value, float_vector] = Some ?sigs"
    by (simp add: signatures_def float_value_def float_vector_def)
  have d: "\<not> pairwise_identical declared_precision [int_value, float_value, float_vector]"
    by (simp add: pairwise_identical_def same_type_def int_value_def float_value_def
        scalar_signature_def)
  have e: "\<exists>s \<in> set (?s0 # ?sigs). \<exists>s' \<in> set (?s0 # ?sigs). sig_rank s \<noteq> sig_rank s'"
    by (simp add: scalar_signature_def)
  have m: "Max (sig_rank ` set (?s0 # ?sigs)) = 1"
    by (simp add: scalar_signature_def)
  note t = homogeneity_law_amended [OF a b c, of declared_precision]
  from t d have l: "PythonList_init declared_precision ''semantic'' [int_value, float_value, float_vector]
       = Inl (TypeError ''Can't create an inhomogeneous list'')" by blast
  from t d e have "\<exists>st. PythonTuple_init declared_precision ''semantic'' [int_value, float_value, float_vector]
             = Inr (PythonTuple [int_value, float_value, float_vector] (Some (False, st)))
           \<and> sig_shape st = Some (Some (LiteralInteger (int (length [int_value, float_value, float_vector])) (-1))
                # replicate (Max (sig_rank ` set (?s0 # ?sigs))) None)
           \<and> sig_rank st = Max (sig_rank ` set (?s0 # ?sigs)) + 1" by blast
  then have u: "\<exists>st. PythonTuple_init declared_precision ''semantic'' [int_value, float_value, float_vector]
             = Inr (PythonTuple [int_value, float_value, float_vector] (Some (False, st)))
           \<and> sig_shape st = Some [Some (LiteralInteger 3 (-1)), None]
           \<and> sig_rank st = 2"
    unfolding m by (simp add: numeral_2_eq_2)
  from a b c d l u show ?thesis by blast
qed

subsection \<open>Length\<close>

lemma inhomogeneous_signature_first_dimension:
  "inhomogeneous_signature args s0 sigs = Inr s \<Longrightarrow>
   \<exists>ds. sig_shape s = Some (Some (length_literal args) # ds)"
  by (auto simp: inhomogeneous_signature_def Let_def split: if_splits option.splits
           simp del: set_simps)

lemma inhomogeneous_tuple_first_dimension:
  assumes "PythonTuple_init fp stage args = Inr t" and "is_homogeneous t = Some False"
    and "args \<noteq> []"
  shows "first_dimension t = Inr (Some (length_literal args))"
proof -
  from assms(3) obtain arg0 rest where args: "args = arg0 # rest" by (cases args) auto
  have stage: "stage \<noteq> ''syntactic''"
    using assms(1,2) by (auto simp: PythonTuple_init_def)
  from assms(1) stage args obtain s0 h sigs s where
    "signature arg0 = Some s0" "signatures rest = Some sigs"
    and hs: "(if h then homogeneous_signature args s0 NativeHomogeneousTuple
         else inhomogeneous_signature args s0 sigs) = Inr s"
    and t: "t = PythonTuple args (Some (h, s))"
    by (auto simp: PythonTuple_init_def split: option.splits sum.splits)
  from t assms(2) have "\<not> h" by simp
  with hs have "inhomogeneous_signature args s0 sigs = Inr s" by simp
  from inhomogeneous_signature_first_dimension [OF this] t
  show ?thesis by (auto simp: first_dimension_def)
qed

text \<open>
  C9, as amended. \<open>PythonLen\<close> builds a length node, of integer kind and rank 0,
  exactly for the arguments whose \<open>is_homogeneous\<close> attribute is true. For every
  other argument, an aggregate whose flag is false as well as an object without such an
  attribute, it returns the first entry of the argument's shape and builds no node; for
  a non-empty inhomogeneous tuple this entry is the integer literal of its number of
  elements.
\<close>

theorem PythonLen_amended:
  "(is_homogeneous arg = Some True \<longrightarrow>
      PythonLen_new arg = Inr (Fresh (PythonLen arg))
      \<and> signature (PythonLen arg) = Some (Signature NativeInteger (-1) 0 None None (Some NativeInteger)))
   \<and> (is_homogeneous arg \<noteq> Some True \<longrightarrow> first_dimension arg = Inr d \<longrightarrow>
        PythonLen_new arg = Inr (shape_entry d))
   \<and> (PythonTuple_init fp stage args = Inr t \<longrightarrow> is_homogeneous t = Some False \<longrightarrow> args \<noteq> [] \<longrightarrow>
        PythonLen_new t = Inr (Existing (LiteralInteger (int (length args)) (-1))))
   \<and> (PythonLen_new arg = Inr (Fresh n) \<longrightarrow> is_homogeneous arg = Some True \<and> n = PythonLen arg)"
proof (intro conjI impI)
  assume "is_homogeneous arg = Some True"
  then show "PythonLen_new arg = Inr (Fresh (PythonLen arg))"
    by (simp add: PythonLen_new_def)
next
  show "signature (PythonLen arg) = Some (Signature NativeInteger (-1) 0 None None (Some NativeInteger))"
    by (simp add: scalar_signature_def)
next
  assume "is_homogeneous arg \<noteq> Some True" "first_dimension arg = Inr d"
  then show "PythonLen_new arg = Inr (shape_entry d)"
    by (simp add: PythonLen_new_def)
next
  assume a: "PythonTuple_init fp stage args = Inr t" "is_homogeneous t = Some False" "args \<noteq> []"
  from inhomogeneous_tuple_first_dimension [OF a] a(2)
  show "PythonLen_new t = Inr (Existing (LiteralInteger (int (length args)) (-1)))"
    by (simp add: PythonLen_new_def shape_entry_def length_literal_def)
next
  assume r: "PythonLen_new arg = Inr (Fresh n)"
  show h: "is_homogeneous arg = Some True"
  proof (rule ccontr)
    assume "is_homogeneous arg \<noteq> Some True"
    with r show False
      by (cases "first_dimension arg")
         (auto simp: PythonLen_new_def shape_entry_def split: option.splits)
  qed
  from h r show "n = PythonLen arg"
    by (simp add: PythonLen_new_def)
qed

theorem PythonLen_counterexample:
  "PythonAbs_init float_vector
     = Inr (PythonAbs float_vector
              (Signature NativeFloat (-1) 1 (Some [Some size_n]) None (Some NativeFloat)))
   \<and> PythonLen_new
       (PythonAbs float_vector
          (Signature NativeFloat (-1) 1 (Some [Some size_n]) None (Some NativeFloat)))
     = Inr (Existing size_n)
   \<and> PythonTuple_init declared_precision ''semantic'' [] = Inr empty_tuple
   \<and> is_homogeneous empty_tuple = Some False
   \<and> PythonLen_new empty_tuple = Inl NoneTypeError"
  by (simp add: PythonAbs_init_def float_vector_def PythonLen_new_def first_dimension_def
      shape_entry_def PythonTuple_init_def empty_tuple_def)

theorem PythonLen_amended_witness:
  "is_homogeneous (PythonList [int_value] (Some (Signature NativeInteger (-1) 1
       (Some [Some (LiteralInteger 1 (-1))]) None (Some NativeHomogeneousList)))) = Some True
   \<and> PythonLen_new (PythonList [int_value] (Some (Signature NativeInteger (-1) 1
       (Some [Some (LiteralInteger 1 (-1))]) None (Some NativeHomogeneousList))))
     = Inr (Fresh (PythonLen (PythonList [int_value] (Some (Signature NativeInteger (-1) 1
       (Some [Some (LiteralInteger 1 (-1))]) None (Some NativeHomogeneousList))))))
   \<and> is_homogeneous float_vector \<noteq> Some True
   \<and> first_dimension float_vector = Inr (Some size_n)
   \<and> PythonLen_new float_vector = Inr (Existing size_n)
   \<and> PythonTuple_init declared_precision ''semantic'' [int_value, float_value]
       = Inr (PythonTuple [int_value, float_value]
               (Some (False, Signature (NativeInhomogeneousTuple [NativeInteger, NativeFloat]) 0 1
                  (Some [Some (LiteralInteger 2 (-1))]) None
                  (Some (NativeInhomogeneousTuple [NativeInteger, NativeFloat])))))
   \<and> PythonLen_new (PythonTuple [int_value, float_value]
               (Some (False, Signature (NativeInhomogeneousTuple [NativeInteger, NativeFloat]) 0 1
                  (Some [Some (LiteralInteger 2 (-1))]) None
                  (Some (NativeInhomogeneousTuple [NativeInteger, NativeFloat])))))
       = Inr (Existing (LiteralInteger 2 (-1)))"
proof -
  let ?l = "PythonList [int_value] (Some (Signature NativeInteger (-1) 1
       (Some [Some (LiteralInteger 1 (-1))]) None (Some NativeHomogeneousList)))"
  let ?t = "PythonTuple [int_value, float_value]
               (Some (False, Signature (NativeInhomogeneousTuple [NativeInteger, NativeFloat]) 0 1
                  (Some [Some (LiteralInteger 2 (-1))]) None
                  (Some (NativeInhomogeneousTuple [NativeInteger, NativeFloat]))))"
  have a: "is_homogeneous ?l = Some True" by simp
  have b: "is_homogeneous float_vector \<noteq> Some True" by (simp add: float_vector_def)
  have c: "first_dimension float_vector = Inr (Some size_n)"
    by (simp add: first_dimension_def float_vector_def)
  have d: "PythonTuple_init declared_precision ''semantic'' [int_value, float_value] = Inr ?t"
    by (simp add: PythonTuple_init_def int_value_def float_value_def scalar_signature_def
        compute_is_homogeneous_def signatures_def inhomogeneous_signature_def max_rank_of_def
        Let_def order_of_rank_def length_literal_def)
  have e: "is_homogeneous ?t = Some False" by simp
  have f: "[int_value, float_value] \<noteq> []" by simp
  from PythonLen_amended [of ?l] a
  have r1: "PythonLen_new ?l = Inr (Fresh (PythonLen ?l))" by blast
  from PythonLen_amended [of float_vector "Some size_n"] b c
  have r2: "PythonLen_new float_vector = Inr (Existing size_n)"
    by (simp add: shape_entry_def)
  from PythonLen_amended [of _ _ declared_precision "''semantic''" "[int_value, float_value]" ?t] d e f
  have r3: "PythonLen_new ?t = Inr (Existing (LiteralInteger 2 (-1)))"
    by simp
  from a b c d r1 r2 r3 show ?thesis by blast
qed

subsection \<open>Zip, maximum and minimum\<close>

lemma known_lengths_literal_values:
  "map first_dimension args = map Inr ds \<Longrightarrow> known_lengths args = Inr (literal_values ds)"
proof (induction args arbitrary: ds)
  case Nil
  then show ?case by simp
next
  case (Cons a as)
  then obtain d ds' where ds: "ds = d # ds'" by (cases ds) auto
  with Cons.prems have a: "first_dimension a = Inr d"
    and r: "map first_dimension as = map Inr ds'" by simp_all
  have step: "(case d of Some (LiteralInteger v p) \<Rightarrow> v # literal_values ds' | _ \<Rightarrow> literal_values ds')
      = literal_values (d # ds')"
  proof (cases d)
    case None
    then show ?thesis by simp
  next
    case (Some n)
    then show ?thesis by (cases n) simp_all
  qed
  show ?case
    using a Cons.IH [OF r] step by (simp add: ds)
qed

text \<open>
  C8, as amended. A zip of fewer than two sources is refused with a ValueError. Outside
  the syntactic stage, for a zip of at least two sources that each have a first
  dimension, the length is the minimum of the first dimensions that are integer
  literals, and the first dimension of the first source when none is an integer literal.
  (A range node has no shape, so the law says nothing of a zip of ranges.)
\<close>

theorem zip_length_amended:
  "(length args < 2 \<longrightarrow> PythonZip_init stage args = Inl (ValueError ''args must be of length > 2''))
   \<and> (stage \<noteq> ''syntactic'' \<longrightarrow>
        map first_dimension (arg0 # arg1 # rest) = map Inr (d0 # ds) \<longrightarrow>
        PythonZip_init stage (arg0 # arg1 # rest)
          = Inr (PythonZip (arg0 # arg1 # rest)
                  (if literal_values (d0 # ds) = [] then zip_fallback_length d0
                   else ZipInt (Min (set (literal_values (d0 # ds)))))))"
proof (intro conjI impI)
  assume "length args < 2"
  then show "PythonZip_init stage args = Inl (ValueError ''args must be of length > 2'')"
    by (simp add: PythonZip_init_def)
next
  assume stage: "stage \<noteq> ''syntactic''"
    and dims: "map first_dimension (arg0 # arg1 # rest) = map Inr (d0 # ds)"
  note k = known_lengths_literal_values [OF dims]
  from dims have d0: "first_dimension arg0 = Inr d0" by simp
  show "PythonZip_init stage (arg0 # arg1 # rest)
          = Inr (PythonZip (arg0 # arg1 # rest)
                  (if literal_values (d0 # ds) = [] then zip_fallback_length d0
                   else ZipInt (Min (set (literal_values (d0 # ds))))))"
  proof (cases "literal_values (d0 # ds)")
    case Nil
    then show ?thesis
      using stage k d0 by (simp add: PythonZip_init_def del: known_lengths.simps)
  next
    case (Cons l ls)
    have "fold min ls l = Min (set (l # ls))" by (rule Min.set_eq_fold [symmetric])
    then show ?thesis
      using stage k Cons by (simp add: PythonZip_init_def del: known_lengths.simps)
  qed
qed

theorem zip_length_counterexample:
  "PythonRange_init [LiteralInteger 5 (-1)]
     = Inr (PythonRange (LiteralInteger 0 (-1)) (LiteralInteger 5 (-1)) (LiteralInteger 1 (-1)))
   \<and> PythonRange_init [LiteralInteger 10 (-1)]
     = Inr (PythonRange (LiteralInteger 0 (-1)) (LiteralInteger 10 (-1)) (LiteralInteger 1 (-1)))
   \<and> PythonZip_init ''semantic''
       [PythonRange (LiteralInteger 0 (-1)) (LiteralInteger 5 (-1)) (LiteralInteger 1 (-1)),
        PythonRange (LiteralInteger 0 (-1)) (LiteralInteger 10 (-1)) (LiteralInteger 1 (-1))]
     = Inl AttributeError"
  by (simp add: PythonRange_init_def PythonZip_init_def first_dimension_def)

theorem zip_length_amended_witness:
  "''semantic'' \<noteq> ''syntactic''
   \<and> map first_dimension [vector_of_length 5, vector_of_length 10]
       = map Inr [Some (LiteralInteger 5 (-1)), Some (LiteralInteger 10 (-1))]
   \<and> PythonZip_init ''semantic'' [vector_of_length 5, vector_of_length 10]
       = Inr (PythonZip [vector_of_length 5, vector_of_length 10] (ZipInt 5))
   \<and> map first_dimension [float_vector, vector_of_length 10, vector_of_length 5]
       = map Inr [Some size_n, Some (LiteralInteger 10 (-1)), Some (LiteralInteger 5 (-1))]
   \<and> PythonZip_init ''semantic'' [float_vector, vector_of_length 10, vector_of_length 5]
       = Inr (PythonZip [float_vector, vector_of_length 10, vector_of_length 5] (ZipInt 5))
   \<and> map first_dimension [float_vector, float_vector] = map Inr [Some size_n, Some size_n]
   \<and> PythonZip_init ''semantic'' [float_vector, float_vector]
       = Inr (PythonZip [float_vector, float_vector] (ZipExpr size_n))
   \<and> length [float_vector] < 2
   \<and> PythonZip_init ''semantic'' [float_vector] = Inl (ValueError ''args must be of length > 2'')"
proof -
  have s: "''semantic'' \<noteq> ''syntactic''" by simp
  have a: "map first_dimension [vector_of_length 5, vector_of_length 10]
       = map Inr [Some (LiteralInteger 5 (-1)), Some (LiteralInteger 10 (-1))]"
    by (simp add: first_dimension_def vector_of_length_def)
  have b: "map first_dimension [float_vector, vector_of_length 10, vector_of_length 5]
       = map Inr [Some size_n, Some (LiteralInteger 10 (-1)), Some (LiteralInteger 5 (-1))]"
    by (simp add: first_dimension_def vector_of_length_def float_vector_def)
  have c: "map first_dimension [float_vector, float_vector] = map Inr [Some size_n, Some size_n]"
    by (simp add: first_dimension_def float_vector_def)
  have d: "length [float_vector] < 2" by simp
  from zip_length_amended [of _ "''semantic''" "vector_of_length 5" "vector_of_length 10" "[]"
      "Some (LiteralInteger 5 (-1))" "[Some (LiteralInteger 10 (-1))]"] s a
  have ra: "PythonZip_init ''semantic'' [vector_of_length 5, vector_of_length 10]
       = Inr (PythonZip [vector_of_length 5, vector_of_length 10] (ZipInt 5))"
    by simp
  from zip_length_amended [of _ "''semantic''" float_vector "vector_of_length 10" "[vector_of_length 5]"
      "Some size_n" "[Some (LiteralInteger 10 (-1)), Some (LiteralInteger 5 (-1))]"] s b
  have rb: "PythonZip_init ''semantic'' [float_vector, vector_of_length 10, vector_of_length 5]
       = Inr (PythonZip [float_vector, vector_of_length 10, vector_of_length 5] (ZipInt 5))"
    by (simp add: size_n_def)
  from zip_length_amended [of _ "''semantic''" float_vector float_vector "[]"
      "Some size_n" "[Some size_n]"] s c
  have rc: "PythonZip_init ''semantic'' [float_vector, float_vector]
       = Inr (PythonZip [float_vector, float_vector] (ZipExpr size_n))"
    by (simp add: size_n_def zip_fallback_length_def)
  from zip_length_amended [of "[float_vector]" "''semantic''"] d
  have rd: "PythonZip_init ''semantic'' [float_vector] = Inl (ValueError ''args must be of length > 2'')"
    by blast
  from s a b c d ra rb rc rd show ?thesis by blast
qed

lemma max_types_placeholders:
  "max_types x = join_comma (replicate (length (elements x)) ''{xi.dtype}({xi.precision})'')"
  by (simp add: max_types_def map_replicate_const)

text \<open>
  C7. On an integer and a float value both constructors raise a \<open>PyccelError\<close>. The
  message of \<open>PythonMin\<close> renders the kind and the precision of each argument; the
  message of \<open>PythonMax\<close> holds the text \<open>{xi.dtype}({xi.precision})\<close> once for each
  argument, so that it is the same for any two arguments of different kinds and names
  neither kind. On two integer values both constructors succeed, and the node has the
  kind and precision of the arguments.
\<close>

theorem PythonMax_message_lacks_kinds:
  "PythonMax_init declared_precision ''semantic'' [Node int_value, Node float_value]
     = Inl (PyccelError
         (''Cannot determine final dtype of 'max' call with arguments of different types ''
          @ ''({xi.dtype}({xi.precision}), {xi.dtype}({xi.precision})). ''
          @ ''Please cast arguments to the desired dtype''))
   \<and> PythonMax_init declared_precision ''semantic'' [Node float_value, Node (LiteralComplex 1 2 (-1))]
     = PythonMax_init declared_precision ''semantic'' [Node int_value, Node float_value]
   \<and> PythonMin_init str_dtype declared_precision ''semantic'' [Node int_value, Node float_value]
     = Inl (PyccelError
         (''Cannot determine final dtype of 'min' call with arguments of different types (''
          @ str_dtype NativeInteger @ ''(-1), '' @ str_dtype NativeFloat @ ''(-1)). ''
          @ ''Please cast arguments to the desired dtype''))
   \<and> PythonMax_init declared_precision ''semantic'' [Node int_value, Node int_value]
     = Inr (PythonMax
             (PythonTuple [int_value, int_value]
                (Some (True, Signature NativeInteger (-1) 1 (Some [Some (LiteralInteger 2 (-1))])
                               None (Some NativeHomogeneousTuple))))
             NativeInteger (-1) NativeHomogeneousTuple)
   \<and> PythonMin_init str_dtype declared_precision ''semantic'' [Node int_value, Node int_value]
     = Inr (PythonMin
             (PythonTuple [int_value, int_value]
                (Some (True, Signature NativeInteger (-1) 1 (Some [Some (LiteralInteger 2 (-1))])
                               None (Some NativeHomogeneousTuple))))
             NativeInteger (-1) NativeHomogeneousTuple)"
  by (simp add: PythonMax_init_def PythonMin_init_def aggregate_of_def PythonTuple_init_def
      int_value_def float_value_def scalar_signature_def compute_is_homogeneous_def
      signatures_def inhomogeneous_signature_def homogeneous_signature_def max_rank_of_def
      Let_def order_of_rank_def length_literal_def max_types_def min_types_def max_message_def
      min_message_def copied_slots_def declared_precision_def str_int_def str_nat.simps)

section \<open>Results on the wrappers of bind_c.py\<close>

lemma concat_replicate_pair: "concat (replicate n [False, False]) = replicate (2 * n) False"
  by (induction n) simp_all

lemma temporary_variables_length:
  "temporary_variables gt scope ns = (vs, scope') \<Longrightarrow> length vs = length ns"
  by (induction ns arbitrary: scope vs scope') (auto split: prod.splits)

lemma temporary_variables_names:
  "temporary_variables gt scope ns = (vs, scope') \<Longrightarrow>
   \<forall>s d n. var_name (fst (gt s d n)) = n \<Longrightarrow> map var_name vs = ns"
proof (induction ns arbitrary: scope vs scope')
  case Nil
  then show ?case by simp
next
  case (Cons n ns)
  obtain v s1 where g: "gt scope NativeInteger n = (v, s1)" by (cases "gt scope NativeInteger n")
  obtain ws s2 where r: "temporary_variables gt s1 ns = (ws, s2)"
    by (cases "temporary_variables gt s1 ns")
  from Cons.prems(1) g r have vs: "vs = v # ws" by simp
  from Cons.prems(2) g have "var_name v = n" by (metis fst_conv)
  moreover from Cons.IH [OF r Cons.prems(2)] have "map var_name ws = ns" .
  ultimately show ?case using vs by simp
qed

lemma names_shift:
  "map (\<lambda>i. p @ str_nat (i + 1)) [0..<r] = map (\<lambda>i. p @ str_nat i) [1..<Suc r]"
  by (induction r) simp_all

lemma shape_names_eq: "shape_names nm r = map (\<lambda>i. nm @ ''_shape_'' @ str_nat i) [1..<Suc r]"
  using names_shift [of "nm @ ''_shape_''" r] by (simp add: shape_names_def)

lemma stride_names_eq: "stride_names nm r = map (\<lambda>i. nm @ ''_stride_'' @ str_nat i) [1..<Suc r]"
  using names_shift [of "nm @ ''_stride_''" r] by (simp add: stride_names_def)

lemma length_shape_names: "length (shape_names nm r) = r" "length (stride_names nm r) = r"
  by (simp_all add: shape_names_def stride_names_def)

lemma BindCFunctionDefArgument_init_fields:
  assumes "BindCFunctionDefArgument_init gt var scope original flag = (w, scope')"
  shows "\<exists>s1. temporary_variables gt scope (shape_names (var_name var) (var_rank original))
               = (arg_shape w, s1)
             \<and> temporary_variables gt s1 (stride_names (var_name var) (var_rank original))
               = (arg_strides w, scope')"
    and "arg_var w = var" and "base_inout w = flag" and "original_arg_var w = original"
    and "arg_rank w = var_rank original"
  using assms
  by (auto simp: BindCFunctionDefArgument_init_def Let_def split: prod.splits)

lemma BindCFunctionDefResult_init_fields:
  assumes "BindCFunctionDefResult_init gt var original scope = (w, scope')"
  shows "temporary_variables gt scope (shape_names (var_name original) (var_rank original))
               = (res_shape w, scope')"
    and "res_var w = var" and "original_res_var w = original"
  using assms
  by (auto simp: BindCFunctionDefResult_init_def Let_def split: prod.splits)

text \<open>
  C3. Whatever the scope hands out, the argument wrapper built over an original variable
  of rank \<open>r\<close> expands into exactly \<open>1 + 2r\<close> descriptors: the wrapper itself, then
  its \<open>r\<close> shape variables, then its \<open>r\<close> stride variables; the result wrapper
  expands into exactly \<open>1 + r\<close> descriptors, itself and its shape variables, and has
  no strides. The variables are requested from the scope under the names
  \<open>{name}_shape_{i}\<close> and \<open>{name}_stride_{i}\<close> for \<open>i\<close> from 1 to \<open>r\<close>,
  and bear these names when the scope grants every requested name.
\<close>

theorem binding_descriptors:
  "(BindCFunctionDefArgument_init gt var scope original flag = (w, scope') \<longrightarrow>
      get_all_function_def_arguments w
        = Self w # map FunctionDefArgument (arg_shape w) @ map FunctionDefArgument (arg_strides w)
      \<and> length (arg_shape w) = var_rank original
      \<and> length (arg_strides w) = var_rank original
      \<and> length (get_all_function_def_arguments w) = 1 + 2 * var_rank original
      \<and> ((\<forall>s d n. var_name (fst (gt s d n)) = n) \<longrightarrow>
           map var_name (arg_shape w)
             = map (\<lambda>i. var_name var @ ''_shape_'' @ str_nat i) [1..<Suc (var_rank original)]
           \<and> map var_name (arg_strides w)
             = map (\<lambda>i. var_name var @ ''_stride_'' @ str_nat i) [1..<Suc (var_rank original)]))
   \<and> (BindCFunctionDefResult_init gt rvar roriginal rscope = (rw, rscope') \<longrightarrow>
      get_all_function_def_results rw = SelfResult rw # map FunctionDefResult (res_shape rw)
      \<and> length (get_all_function_def_results rw) = 1 + var_rank roriginal
      \<and> ((\<forall>s d n. var_name (fst (gt s d n)) = n) \<longrightarrow>
           map var_name (res_shape rw)
             = map (\<lambda>i. var_name roriginal @ ''_shape_'' @ str_nat i) [1..<Suc (var_rank roriginal)]))"
proof (intro conjI impI)
  assume init: "BindCFunctionDefArgument_init gt var scope original flag = (w, scope')"
  from BindCFunctionDefArgument_init_fields(1) [OF init]
  obtain s1 where sh: "temporary_variables gt scope (shape_names (var_name var) (var_rank original))
               = (arg_shape w, s1)"
    and st: "temporary_variables gt s1 (stride_names (var_name var) (var_rank original))
               = (arg_strides w, scope')" by blast
  show "get_all_function_def_arguments w
        = Self w # map FunctionDefArgument (arg_shape w) @ map FunctionDefArgument (arg_strides w)"
    by (simp add: get_all_function_def_arguments_def)
  show l1: "length (arg_shape w) = var_rank original"
    using temporary_variables_length [OF sh] by (simp add: length_shape_names)
  show l2: "length (arg_strides w) = var_rank original"
    using temporary_variables_length [OF st] by (simp add: length_shape_names)
  show "length (get_all_function_def_arguments w) = 1 + 2 * var_rank original"
    using l1 l2 by (simp add: get_all_function_def_arguments_def)
  {
    assume grant: "\<forall>s d n. var_name (fst (gt s d n)) = n"
    show "map var_name (arg_shape w)
             = map (\<lambda>i. var_name var @ ''_shape_'' @ str_nat i) [1..<Suc (var_rank original)]"
      using temporary_variables_names [OF sh grant]
      by (simp only: shape_names_eq)
    show "map var_name (arg_strides w)
             = map (\<lambda>i. var_name var @ ''_stride_'' @ str_nat i) [1..<Suc (var_rank original)]"
      using temporary_variables_names [OF st grant]
      by (simp only: stride_names_eq)
  }
next
  assume init: "BindCFunctionDefResult_init gt rvar roriginal rscope = (rw, rscope')"
  note sh = BindCFunctionDefResult_init_fields(1) [OF init]
  show "get_all_function_def_results rw = SelfResult rw # map FunctionDefResult (res_shape rw)"
    by (simp add: get_all_function_def_results_def)
  show "length (get_all_function_def_results rw) = 1 + var_rank roriginal"
    using temporary_variables_length [OF sh]
    by (simp add: get_all_function_def_results_def length_shape_names)
  {
    assume grant: "\<forall>s d n. var_name (fst (gt s d n)) = n"
    show "map var_name (res_shape rw)
             = map (\<lambda>i. var_name roriginal @ ''_shape_'' @ str_nat i) [1..<Suc (var_rank roriginal)]"
      using temporary_variables_names [OF sh grant]
      by (simp only: shape_names_eq)
  }
qed

lemma arr_argument_run:
  "BindCFunctionDefArgument_init granting_scope arr_pointer [] arr True =
     (\<lparr> arg_var = arr_pointer, base_inout = True,
        arg_shape = [\<lparr> var_name = ''arr_shape_1'', var_dtype = NativeInteger, var_rank = 0 \<rparr>,
                     \<lparr> var_name = ''arr_shape_2'', var_dtype = NativeInteger, var_rank = 0 \<rparr>],
        arg_strides = [\<lparr> var_name = ''arr_stride_1'', var_dtype = NativeInteger, var_rank = 0 \<rparr>,
                       \<lparr> var_name = ''arr_stride_2'', var_dtype = NativeInteger, var_rank = 0 \<rparr>],
        original_arg_var = arr, arg_rank = 2 \<rparr>,
      [''arr_shape_1'', ''arr_shape_2'', ''arr_stride_1'', ''arr_stride_2''])"
  by (simp add: BindCFunctionDefArgument_init_def arr_def arr_pointer_def shape_names_def
      stride_names_def granting_scope_def str_nat.simps upt_rec Let_def)

lemma arr_result_run:
  "BindCFunctionDefResult_init granting_scope arr_pointer arr [] =
     (\<lparr> res_var = arr_pointer,
        res_shape = [\<lparr> var_name = ''arr_shape_1'', var_dtype = NativeInteger, var_rank = 0 \<rparr>,
                     \<lparr> var_name = ''arr_shape_2'', var_dtype = NativeInteger, var_rank = 0 \<rparr>],
        original_res_var = arr \<rparr>,
      [''arr_shape_1'', ''arr_shape_2''])"
  by (simp add: BindCFunctionDefResult_init_def arr_def arr_pointer_def shape_names_def
      granting_scope_def str_nat.simps upt_rec Let_def)

theorem binding_descriptors_witness:
  "(\<forall>s d n. var_name (fst (granting_scope s d n)) = n)
   \<and> length (get_all_function_def_arguments
         (fst (BindCFunctionDefArgument_init granting_scope arr_pointer [] arr True))) = 5
   \<and> map var_name (arg_shape (fst (BindCFunctionDefArgument_init granting_scope arr_pointer [] arr True)))
       = [''arr_shape_1'', ''arr_shape_2'']
   \<and> map var_name (arg_strides (fst (BindCFunctionDefArgument_init granting_scope arr_pointer [] arr True)))
       = [''arr_stride_1'', ''arr_stride_2'']
   \<and> length (get_all_function_def_results
         (fst (BindCFunctionDefResult_init granting_scope arr_pointer arr []))) = 3
   \<and> map var_name (res_shape (fst (BindCFunctionDefResult_init granting_scope arr_pointer arr [])))
       = [''arr_shape_1'', ''arr_shape_2'']"
proof -
  let ?w = "fst (BindCFunctionDefArgument_init granting_scope arr_pointer [] arr True)"
  let ?s = "snd (BindCFunctionDefArgument_init granting_scope arr_pointer [] arr True)"
  let ?rw = "fst (BindCFunctionDefResult_init granting_scope arr_pointer arr [])"
  let ?rs = "snd (BindCFunctionDefResult_init granting_scope arr_pointer arr [])"
  have g: "\<forall>s d n. var_name (fst (granting_scope s d n)) = n"
    by (simp add: granting_scope_def)
  have i: "BindCFunctionDefArgument_init granting_scope arr_pointer [] arr True = (?w, ?s)"
    by simp
  have r: "BindCFunctionDefResult_init granting_scope arr_pointer arr [] = (?rw, ?rs)"
    by simp
  have names: "map (\<lambda>i. ''arr'' @ ''_shape_'' @ str_nat i) [1..<Suc 2] = [''arr_shape_1'', ''arr_shape_2'']"
    "map (\<lambda>i. ''arr'' @ ''_stride_'' @ str_nat i) [1..<Suc 2] = [''arr_stride_1'', ''arr_stride_2'']"
    by (simp_all add: str_nat.simps upt_rec)
  have v: "var_rank arr = 2" "var_name arr = ''arr''" "var_name arr_pointer = ''arr''"
    by (simp_all add: arr_def arr_pointer_def)
  from binding_descriptors [of granting_scope arr_pointer "[]" arr True ?w ?s arr_pointer arr "[]" ?rw ?rs]
    i r g
  have "length (get_all_function_def_arguments ?w) = 1 + 2 * var_rank arr
      \<and> map var_name (arg_shape ?w)
          = map (\<lambda>i. var_name arr_pointer @ ''_shape_'' @ str_nat i) [1..<Suc (var_rank arr)]
      \<and> map var_name (arg_strides ?w)
          = map (\<lambda>i. var_name arr_pointer @ ''_stride_'' @ str_nat i) [1..<Suc (var_rank arr)]
      \<and> length (get_all_function_def_results ?rw) = 1 + var_rank arr
      \<and> map var_name (res_shape ?rw)
          = map (\<lambda>i. var_name arr @ ''_shape_'' @ str_nat i) [1..<Suc (var_rank arr)]"
    by blast
  then show ?thesis
    using g unfolding v names by simp
qed

text \<open>
  C4, as amended. For a wrapper over a scalar (rank 0) the property \<open>inout\<close> is the
  inherited, caller-supplied flag of the wrapped value, and the wrapper has no shape or
  stride parameter. For a wrapper over an array of rank \<open>r > 0\<close> the property is a
  list of \<open>1 + 2r\<close> flags, one for each descriptor, and all of them are false: the
  wrapped value itself and every shape and stride parameter are reported immutable,
  whatever flag the caller supplied.
\<close>

theorem inout_report_amended:
  "BindCFunctionDefArgument_init gt var scope original flag = (w, scope') \<longrightarrow>
     (var_rank original = 0 \<longrightarrow>
        inout w = Flag flag \<and> get_all_function_def_arguments w = [Self w])
     \<and> (var_rank original \<noteq> 0 \<longrightarrow>
        inout w = Flags (replicate (1 + 2 * var_rank original) False)
        \<and> length (get_all_function_def_arguments w) = 1 + 2 * var_rank original)"
proof (intro impI conjI)
  assume init: "BindCFunctionDefArgument_init gt var scope original flag = (w, scope')"
  note f = BindCFunctionDefArgument_init_fields [OF init]
  from f(1) obtain s1 where
    sh: "temporary_variables gt scope (shape_names (var_name var) (var_rank original)) = (arg_shape w, s1)"
    and st: "temporary_variables gt s1 (stride_names (var_name var) (var_rank original)) = (arg_strides w, scope')"
    by blast
  have l: "length (arg_shape w) = var_rank original" "length (arg_strides w) = var_rank original"
    using temporary_variables_length [OF sh] temporary_variables_length [OF st]
    by (simp_all add: length_shape_names)
  {
    assume z: "var_rank original = 0"
    show "inout w = Flag flag" using z f(3,5) by (simp add: inout_def)
    show "get_all_function_def_arguments w = [Self w]"
      using z l by (simp add: get_all_function_def_arguments_def)
  }
  {
    assume nz: "var_rank original \<noteq> 0"
    show "inout w = Flags (replicate (1 + 2 * var_rank original) False)"
      using nz f(5) by (simp add: inout_def concat_replicate_pair)
    show "length (get_all_function_def_arguments w) = 1 + 2 * var_rank original"
      using l by (simp add: get_all_function_def_arguments_def)
  }
qed

theorem inout_report_counterexample:
  "var_rank vec = 1
   \<and> base_inout (fst (BindCFunctionDefArgument_init granting_scope vec_pointer [] vec True)) = True
   \<and> inout (fst (BindCFunctionDefArgument_init granting_scope vec_pointer [] vec True))
       = Flags [False, False, False]"
  by (simp add: BindCFunctionDefArgument_init_def vec_def vec_pointer_def shape_names_def
      stride_names_def granting_scope_def inout_def Let_def)

theorem inout_report_amended_witness:
  "var_rank scalar_x = 0
   \<and> inout (fst (BindCFunctionDefArgument_init granting_scope scalar_x [] scalar_x True)) = Flag True
   \<and> var_rank arr \<noteq> 0
   \<and> inout (fst (BindCFunctionDefArgument_init granting_scope arr_pointer [] arr True))
       = Flags [False, False, False, False, False]"
proof -
  let ?wa = "fst (BindCFunctionDefArgument_init granting_scope scalar_x [] scalar_x True)"
  let ?sa = "snd (BindCFunctionDefArgument_init granting_scope scalar_x [] scalar_x True)"
  let ?wb = "fst (BindCFunctionDefArgument_init granting_scope arr_pointer [] arr True)"
  let ?sb = "snd (BindCFunctionDefArgument_init granting_scope arr_pointer [] arr True)"
  have i0: "BindCFunctionDefArgument_init granting_scope scalar_x [] scalar_x True = (?wa, ?sa)"
    by simp
  have i: "BindCFunctionDefArgument_init granting_scope arr_pointer [] arr True = (?wb, ?sb)"
    by simp
  have r0: "var_rank scalar_x = 0" by (simp add: scalar_x_def)
  have r: "var_rank arr = 2" by (simp add: arr_def)
  from inout_report_amended [of granting_scope scalar_x "[]" scalar_x True ?wa ?sa] i0 r0
  have a: "inout ?wa = Flag True" by blast
  from inout_report_amended [of granting_scope arr_pointer "[]" arr True ?wb ?sb] i
  have "var_rank arr \<noteq> 0 \<longrightarrow> inout ?wb = Flags (replicate (1 + 2 * var_rank arr) False)"
    by blast
  then have b: "inout ?wb = Flags [False, False, False, False, False]"
    unfolding r by (simp add: numeral_eq_Suc)
  from a b r0 r show ?thesis by simp
qed

end
